theory Spec2Isabelle
  imports
    Main
    "HOL-Library.AList"
    "HOL-Library.Sublist"
    "HOL-Library.Char_ord"
    "HOL-Library.List_Lexorder"
begin

section \<open>Python values and exceptions\<close>

text \<open>
  The documents the program reads (actual-results.json, expected-results.json, the
  modifications sent by a client) are JSON values. A Python dict is an association
  list: \<open>map_of\<close> reads it (the first binding of a key is the dict's binding),
  \<open>AList.update\<close> writes it, and its keys are \<open>remdups (map fst kvs)\<close>.
  \<open>JNull\<close> is Python's \<open>None\<close>. The numbers of these documents (digests, bug
  identifiers) are integers.
\<close>

datatype json =
    JNull
  | JBool bool
  | JInt int
  | JStr string
  | JList "json list"
  | JObj "(string \<times> json) list"

text \<open>The exception classes the code can meet; every one of them derives from Exception.\<close>

datatype py_error =
    KeyError
  | TypeError
  | IndexError
  | AttributeError
  | IOError
  | ValueError
  | OtherException

text \<open>Truth value of an object (\<open>if not x\<close>).\<close>

fun truthy :: "json \<Rightarrow> bool" where
  "truthy JNull = False"
| "truthy (JBool b) = b"
| "truthy (JInt n) = (n \<noteq> 0)"
| "truthy (JStr s) = (s \<noteq> [])"
| "truthy (JList xs) = (xs \<noteq> [])"
| "truthy (JObj kvs) = (kvs \<noteq> [])"

text \<open>\<open>d[k]\<close> for a string key: only a dict accepts it; a missing key is a KeyError.\<close>

fun getitem :: "json \<Rightarrow> string \<Rightarrow> py_error + json" where
  "getitem (JObj kvs) k = (case map_of kvs k of None \<Rightarrow> Inl KeyError | Some v \<Rightarrow> Inr v)"
| "getitem _ k = Inl TypeError"

text \<open>
  \<open>x[i]\<close> for a non-negative integer index. A list or a string past its end raises
  IndexError; a dict of a JSON document has string keys only, so the lookup is a
  KeyError; the other values are not subscriptable.
\<close>

fun getindex :: "json \<Rightarrow> nat \<Rightarrow> py_error + json" where
  "getindex (JList xs) i = (if i < length xs then Inr (xs ! i) else Inl IndexError)"
| "getindex (JStr s) i = (if i < length s then Inr (JStr [s ! i]) else Inl IndexError)"
| "getindex (JObj kvs) i = Inl KeyError"
| "getindex _ i = Inl TypeError"

text \<open>\<open>d.get(k)\<close>: None for a missing key; a value that is no dict has no such method.\<close>

fun dict_get :: "json \<Rightarrow> string \<Rightarrow> py_error + json" where
  "dict_get (JObj kvs) k = (case map_of kvs k of None \<Rightarrow> Inr JNull | Some v \<Rightarrow> Inr v)"
| "dict_get _ k = Inl AttributeError"

text \<open>\<open>d.keys()\<close>, and \<open>d[k] = v\<close> for a string key.\<close>

fun dict_keys :: "json \<Rightarrow> py_error + string list" where
  "dict_keys (JObj kvs) = Inr (remdups (map fst kvs))"
| "dict_keys _ = Inl AttributeError"

fun setitem :: "json \<Rightarrow> string \<Rightarrow> json \<Rightarrow> py_error + json" where
  "setitem (JObj kvs) k v = Inr (JObj (AList.update k v kvs))"
| "setitem _ k v = Inl TypeError"

text \<open>
  The meta-dictionary of \<open>_read_dicts_from_root\<close>: builder name to document.
  \<open>meta_dict[b]\<close> where \<open>b\<close> is a value taken from a JSON document: a list or a
  dict is unhashable (TypeError), anything that is not a key is a KeyError.
\<close>

type_synonym meta_dict = "(string \<times> json) list"

fun meta_getitem :: "meta_dict \<Rightarrow> json \<Rightarrow> py_error + json" where
  "meta_getitem md (JStr b) = (case map_of md b of None \<Rightarrow> Inl KeyError | Some d \<Rightarrow> Inr d)"
| "meta_getitem md (JList xs) = Inl TypeError"
| "meta_getitem md (JObj kvs) = Inl TypeError"
| "meta_getitem md _ = Inl KeyError"

text \<open>A \<open>for\<close> loop whose body may raise: the first exception leaves the loop.\<close>

fun for_each :: "('a \<Rightarrow> 's \<Rightarrow> 'e + 's) \<Rightarrow> 'a list \<Rightarrow> 's \<Rightarrow> 'e + 's" where
  "for_each f [] s = Inr s"
| "for_each f (x # xs) s = (case f x s of Inl e \<Rightarrow> Inl e | Inr s' \<Rightarrow> for_each f xs s')"

section \<open>The directory tree\<close>

text \<open>
  What the code sees of the disk: \<open>os.path.isdir\<close>, the triples \<open>os.walk\<close> yields
  for a root (dirpath, dirnames, filenames), and for each path what
  \<open>gm_json.LoadFromFile\<close> returns there (the parsed document, or the exception).
  \<open>gm_json.WriteToFile\<close> replaces the document at a path.
\<close>

record filesystem =
  isdir :: "string \<Rightarrow> bool"
  walk :: "string \<Rightarrow> (string \<times> string list \<times> string list) list"
  files :: "string \<Rightarrow> py_error + json"

definition LoadFromFile :: "filesystem \<Rightarrow> string \<Rightarrow> py_error + json" where
  "LoadFromFile fs fullpath = files fs fullpath"

definition WriteToFile :: "json \<Rightarrow> string \<Rightarrow> filesystem \<Rightarrow> filesystem" where
  "WriteToFile doc fullpath fs = fs\<lparr>files := (files fs)(fullpath := Inr doc)\<rparr>"

text \<open>\<open>os.path.basename\<close> and \<open>os.path.join\<close> (POSIX), and \<open>fnmatch.filter\<close> for the
  pattern \<open>*.json\<close>, the only pattern the program passes.\<close>

definition basename :: "string \<Rightarrow> string" where
  "basename p = rev (takeWhile (\<lambda>c. c \<noteq> CHR ''/'') (rev p))"

definition path_join :: "string \<Rightarrow> string \<Rightarrow> string" where
  "path_join a b =
     (if prefix ''/'' b then b
      else if a = [] \<or> suffix ''/'' a then a @ b
      else a @ ''/'' @ b)"

definition fnmatch_filter :: "string list \<Rightarrow> string list" where
  "fnmatch_filter filenames = filter (suffix ''.json'') filenames"

text \<open>The (dirpath, matching filename) pairs in the order the two nested loops over
  \<open>os.walk(root)\<close> and \<open>fnmatch.filter(filenames, pattern)\<close> visit them.\<close>

definition matching_files :: "filesystem \<Rightarrow> string \<Rightarrow> (string \<times> string) list" where
  "matching_files fs root =
     concat (map (\<lambda>(dirpath, dirnames, filenames).
                    map (\<lambda>matching_filename. (dirpath, matching_filename))
                        (fnmatch_filter filenames))
                 (walk fs root))"

section \<open>Tree Loader\<close>

definition ignore_builder :: "string \<Rightarrow> bool" where
  "ignore_builder builder \<longleftrightarrow>
     suffix ''-Trybot'' builder \<or>
     sublist ''Valgrind'' builder \<or>
     sublist ''TSAN'' builder \<or>
     sublist ''ASAN'' builder"

definition read_step :: "filesystem \<Rightarrow> string \<times> string \<Rightarrow> meta_dict \<Rightarrow> py_error + meta_dict" where
  "read_step fs = (\<lambda>(dirpath, matching_filename) meta_dict.
     let builder = basename dirpath in
     if ignore_builder builder then Inr meta_dict
     else case LoadFromFile fs (path_join dirpath matching_filename) of
            Inl e \<Rightarrow> Inl e
          | Inr doc \<Rightarrow> Inr (AList.update builder doc meta_dict))"

definition read_dicts_from_root :: "filesystem \<Rightarrow> string \<Rightarrow> py_error + meta_dict" where
  "read_dicts_from_root fs root =
     (if \<not> isdir fs root then Inl IOError
      else for_each (read_step fs) (matching_files fs root) [])"

section \<open>Constants and helpers of gm_json.py, results.py, imagepair.py and imagepairset.py\<close>

text \<open>
  The key constants, the image file name convention and the URL helpers live in modules
  that compare_to_expectations.py imports. They are parameters of the model: every
  theorem below holds for all their values, unless it states a hypothesis about them.
  \<open>IMAGE_FILENAME_RE_match\<close> is \<open>IMAGE_FILENAME_RE.match(name)\<close> followed by
  \<open>.groups()\<close> (None when the name does not match), \<open>IMAGE_FILENAME_FORMATTER\<close>
  is the \<open>%\<close> formatting of (test, config), \<open>py_int\<close> is the builtin \<open>int()\<close>.
\<close>

record gm_consts =
  JSONKEY_ACTUALRESULTS :: string
  JSONKEY_EXPECTEDRESULTS :: string
  JSONKEY_EXPECTEDRESULTS_ALLOWEDDIGESTS :: string
  KEY__EXPECTATIONS__BUGS :: string
  KEY__EXPECTATIONS__IGNOREFAILURE :: string
  KEY__EXPECTATIONS__REVIEWED :: string
  KEY__RESULT_TYPE__FAILED :: string
  KEY__RESULT_TYPE__FAILUREIGNORED :: string
  KEY__RESULT_TYPE__NOCOMPARISON :: string
  KEY__RESULT_TYPE__SUCCEEDED :: string
  KEY__HEADER__RESULTS_ALL :: string
  KEY__HEADER__RESULTS_FAILURES :: string
  KEY__EXPECTATIONS_DATA :: string
  KEY__EXTRA_COLUMN_VALUES :: string
  KEY__EXTRACOLUMN__BUILDER :: string
  KEY__EXTRACOLUMN__CONFIG :: string
  KEY__EXTRACOLUMN__TEST :: string
  KEY__NEW_IMAGE_URL :: string
  GM_ACTUALS_ROOT_HTTP_URL :: string
  REBASELINE_SERVER_SCHEMA_VERSION_NUMBER :: int
  IMAGE_FILENAME_RE_match :: "string \<Rightarrow> (string \<times> string) option"
  IMAGE_FILENAME_FORMATTER :: "json \<Rightarrow> json \<Rightarrow> string"
  CreateGmRelativeUrl :: "string \<Rightarrow> json \<Rightarrow> json \<Rightarrow> py_error + string"
  SplitGmRelativeUrl :: "json \<Rightarrow> py_error + (json \<times> json \<times> json)"
  py_int :: "json \<Rightarrow> py_error + json"

definition EXPECTATION_FIELDS_PASSED_THRU_VERBATIM :: "gm_consts \<Rightarrow> string list" where
  "EXPECTATION_FIELDS_PASSED_THRU_VERBATIM c =
     [KEY__EXPECTATIONS__BUGS c, KEY__EXPECTATIONS__IGNOREFAILURE c, KEY__EXPECTATIONS__REVIEWED c]"

text \<open>Sequencing of two steps either of which may raise.\<close>

definition and_then :: "'e + 'a \<Rightarrow> ('a \<Rightarrow> 'e + 'b) \<Rightarrow> 'e + 'b" where
  "and_then r f = (case r of Inl e \<Rightarrow> Inl e | Inr v \<Rightarrow> f v)"

section \<open>Comparison records and the Record Set Aggregator\<close>

text \<open>
  Modelled from the spec: imagepair.ImagePair and imagepairset.ImagePairSet are not in
  the sources at hand. A record carries test name, configuration name, builder name and
  final classification (the extra columns), the expected image reference (image A,
  nullable), the actual image reference (image B, nullable), the expectation metadata
  (nullable) and a diff handle obtained from the Diff Store. The Diff Store, given two
  nullable image references, returns a diff handle or fails; constructing a record
  fails exactly when the Diff Store fails. The aggregator accumulates the records it is
  given and registers every distinct value seen per column.
\<close>

record extra_columns =
  col_result_type :: string
  col_builder :: string
  col_test :: string
  col_config :: string

record 'h image_pair =
  base_url :: string
  imageA_relative_url :: "string option"
  imageB_relative_url :: "string option"
  expectations_dict :: "(string \<times> json) list option"
  extra_columns_dict :: extra_columns
  diff_record :: 'h

type_synonym 'h diff_store = "string option \<Rightarrow> string option \<Rightarrow> py_error + 'h"

definition ImagePair ::
  "'h diff_store \<Rightarrow> string \<Rightarrow> string option \<Rightarrow> string option \<Rightarrow>
   (string \<times> json) list option \<Rightarrow> extra_columns \<Rightarrow> py_error + 'h image_pair" where
  "ImagePair image_diff_db url imageA imageB expectations extra_columns =
     (case image_diff_db imageA imageB of
        Inl e \<Rightarrow> Inl e
      | Inr handle \<Rightarrow>
          Inr \<lparr>base_url = url, imageA_relative_url = imageA, imageB_relative_url = imageB,
               expectations_dict = expectations, extra_columns_dict = extra_columns,
               diff_record = handle\<rparr>)"

datatype column = COLUMN_RESULT_TYPE | COLUMN_BUILDER | COLUMN_TEST | COLUMN_CONFIG

record 'h image_pair_set =
  image_pairs :: "'h image_pair list"
  extra_column_values :: "(column \<times> string) list"

definition ImagePairSet :: "'h image_pair_set" where
  "ImagePairSet = \<lparr>image_pairs = [], extra_column_values = []\<rparr>"

definition ensure_extra_column_values_in_summary ::
  "column \<Rightarrow> string list \<Rightarrow> 'h image_pair_set \<Rightarrow> 'h image_pair_set" where
  "ensure_extra_column_values_in_summary column_id vals ps =
     ps\<lparr>extra_column_values :=
          fold (\<lambda>v reg. List.insert (column_id, v) reg) vals (extra_column_values ps)\<rparr>"

definition add_image_pair :: "'h image_pair \<Rightarrow> 'h image_pair_set \<Rightarrow> 'h image_pair_set" where
  "add_image_pair p ps =
     (let x = extra_columns_dict p in
      ps\<lparr>image_pairs := image_pairs ps @ [p],
          extra_column_values :=
            fold List.insert
              [(COLUMN_RESULT_TYPE, col_result_type x), (COLUMN_BUILDER, col_builder x),
               (COLUMN_TEST, col_test x), (COLUMN_CONFIG, col_config x)]
              (extra_column_values ps)\<rparr>)"

section \<open>Reconciliation Engine\<close>

definition create_relative_url :: "gm_consts \<Rightarrow> json \<Rightarrow> string \<Rightarrow> py_error + string option" where
  "create_relative_url c hashtype_and_digest test_name =
     (if \<not> truthy hashtype_and_digest then Inr None
      else and_then (getindex hashtype_and_digest 0) (\<lambda>hash_type.
           and_then (getindex hashtype_and_digest 1) (\<lambda>hash_digest.
           and_then (CreateGmRelativeUrl c test_name hash_type hash_digest) (\<lambda>url.
           Inr (Some url)))))"

datatype log_entry =
    Info_reading_actuals string
  | Info_reading_expected string
  | Info_generating_pixel_diffs nat nat string
  | Warning_no_expectations string string string
  | Exception_creating_ImagePair py_error

record 'h load_state =
  all_image_pairs :: "'h image_pair_set"
  failing_image_pairs :: "'h image_pair_set"
  log :: "log_entry list"

definition logging :: "log_entry \<Rightarrow> 'h load_state \<Rightarrow> 'h load_state" where
  "logging entry st = st\<lparr>log := log st @ [entry]\<rparr>"

text \<open>Lines 378-380: \<open>expected_builder_dicts[builder][JSONKEY_EXPECTEDRESULTS][image_name]\<close>.\<close>

definition expectations_per_test ::
  "gm_consts \<Rightarrow> meta_dict \<Rightarrow> string \<Rightarrow> string \<Rightarrow> py_error + json" where
  "expectations_per_test c expected_builder_dicts builder_name image_name =
     and_then (meta_getitem expected_builder_dicts (JStr builder_name)) (\<lambda>builder_dict.
     and_then (getitem builder_dict (JSONKEY_EXPECTEDRESULTS c)) (\<lambda>expected_results.
     getitem expected_results image_name))"

text \<open>The body of the \<open>try\<close> block, lines 378-391: the expected image reference and
  the verbatim metadata.\<close>

definition try_expectations ::
  "gm_consts \<Rightarrow> meta_dict \<Rightarrow> string \<Rightarrow> string \<Rightarrow> string \<Rightarrow>
   py_error + (string option \<times> (string \<times> json) list)" where
  "try_expectations c expected_builder_dicts builder_name image_name test_name =
     and_then (expectations_per_test c expected_builder_dicts builder_name image_name) (\<lambda>per_test.
     and_then (getitem per_test (JSONKEY_EXPECTEDRESULTS_ALLOWEDDIGESTS c)) (\<lambda>allowed_digests.
     and_then (getindex allowed_digests 0) (\<lambda>expected_image_hashtype_and_digest.
     and_then (create_relative_url c expected_image_hashtype_and_digest test_name) (\<lambda>url.
     and_then (for_each (\<lambda>field d. and_then (dict_get per_test field) (\<lambda>v.
                           Inr (AList.update field v d)))
                 (EXPECTATION_FIELDS_PASSED_THRU_VERBATIM c) []) (\<lambda>d.
     Inr (url, d))))))"

text \<open>
  Lines 374-417: the defaults, the \<open>try\<close> block and its handler for KeyError and
  TypeError, which warns unless the result type is NOCOMPARISON. Any other exception
  leaves the function. The result is (expected_image_relative_url, expectations_dict)
  and the state with the warning logged.
\<close>

definition find_expectations ::
  "gm_consts \<Rightarrow> meta_dict \<Rightarrow> string \<Rightarrow> string \<Rightarrow> string \<Rightarrow> string \<Rightarrow> 'h load_state \<Rightarrow>
   py_error + ((string option \<times> (string \<times> json) list option) \<times> 'h load_state)" where
  "find_expectations c expected_builder_dicts builder_name result_type image_name test_name st =
     (case try_expectations c expected_builder_dicts builder_name image_name test_name of
        Inr (url, d) \<Rightarrow> Inr ((url, Some d), st)
      | Inl e \<Rightarrow>
          if e = KeyError \<or> e = TypeError then
            Inr ((None, None),
                 if result_type \<noteq> KEY__RESULT_TYPE__NOCOMPARISON c
                 then logging (Warning_no_expectations builder_name result_type image_name) st
                 else st)
          else Inl e)"

text \<open>Lines 432-435.\<close>

definition updated_result_type ::
  "gm_consts \<Rightarrow> string option \<Rightarrow> string option \<Rightarrow> string \<Rightarrow> string" where
  "updated_result_type c expected_image_relative_url actual_image_relative_url result_type =
     (if expected_image_relative_url = actual_image_relative_url
      then KEY__RESULT_TYPE__SUCCEEDED c else result_type)"

text \<open>Lines 436-454: the record is built, and added to the partitions unless its
  construction raised; every exception is caught and logged.\<close>

definition emit_image_pair ::
  "gm_consts \<Rightarrow> 'h diff_store \<Rightarrow> string option \<Rightarrow> string option \<Rightarrow>
   (string \<times> json) list option \<Rightarrow> extra_columns \<Rightarrow> 'h load_state \<Rightarrow> 'h load_state" where
  "emit_image_pair c image_diff_db expected_url actual_url expectations extra st =
     (case ImagePair image_diff_db (GM_ACTUALS_ROOT_HTTP_URL c) expected_url actual_url
             expectations extra of
        Inl e \<Rightarrow> logging (Exception_creating_ImagePair e) st
      | Inr image_pair \<Rightarrow>
          (let st1 = st\<lparr>all_image_pairs := add_image_pair image_pair (all_image_pairs st)\<rparr> in
           if col_result_type extra \<noteq> KEY__RESULT_TYPE__SUCCEEDED c
           then st1\<lparr>failing_image_pairs := add_image_pair image_pair (failing_image_pairs st1)\<rparr>
           else st1))"

text \<open>The body of the innermost loop, lines 368-454, for one image name.\<close>

definition process_image ::
  "gm_consts \<Rightarrow> 'h diff_store \<Rightarrow> meta_dict \<Rightarrow> string \<Rightarrow> string \<Rightarrow> json \<Rightarrow> string \<Rightarrow>
   'h load_state \<Rightarrow> py_error + 'h load_state" where
  "process_image c image_diff_db expected_builder_dicts builder_name result_type
       results_of_this_type image_name st =
     (case IMAGE_FILENAME_RE_match c image_name of
        None \<Rightarrow> Inl AttributeError
      | Some (test_name, config_name) \<Rightarrow>
          and_then (getitem results_of_this_type image_name) (\<lambda>hashtype_and_digest.
          and_then (create_relative_url c hashtype_and_digest test_name) (\<lambda>actual_url.
          and_then (find_expectations c expected_builder_dicts builder_name result_type
                      image_name test_name st) (\<lambda>((expected_url, expectations), st1).
          Inr (emit_image_pair c image_diff_db expected_url actual_url expectations
                 \<lparr>col_result_type = updated_result_type c expected_url actual_url result_type,
                  col_builder = builder_name, col_test = test_name, col_config = config_name\<rparr>
                 st1)))))"

text \<open>The loop over the image names of one result type, lines 364-367.\<close>

definition process_result_type ::
  "gm_consts \<Rightarrow> 'h diff_store \<Rightarrow> meta_dict \<Rightarrow> string \<Rightarrow> json \<Rightarrow> string \<Rightarrow>
   'h load_state \<Rightarrow> py_error + 'h load_state" where
  "process_result_type c image_diff_db expected_builder_dicts builder_name
       actual_results_for_this_builder result_type st =
     and_then (getitem actual_results_for_this_builder result_type) (\<lambda>results_of_this_type.
     if \<not> truthy results_of_this_type then Inr st
     else and_then (dict_keys results_of_this_type) (\<lambda>image_names.
          for_each (process_image c image_diff_db expected_builder_dicts builder_name
                      result_type results_of_this_type)
            (sort image_names) st))"

text \<open>The loop over the result types of one builder, lines 358-363.\<close>

definition process_builder ::
  "gm_consts \<Rightarrow> 'h diff_store \<Rightarrow> meta_dict \<Rightarrow> meta_dict \<Rightarrow> nat \<Rightarrow> nat \<times> string \<Rightarrow>
   'h load_state \<Rightarrow> py_error + 'h load_state" where
  "process_builder c image_diff_db actual_builder_dicts expected_builder_dicts num_builders =
     (\<lambda>(builder_num, builder_name) st.
        let st1 = logging (Info_generating_pixel_diffs builder_num num_builders builder_name) st in
        and_then (meta_getitem actual_builder_dicts (JStr builder_name)) (\<lambda>builder_dict.
        and_then (getitem builder_dict (JSONKEY_ACTUALRESULTS c)) (\<lambda>actual_results_for_this_builder.
        and_then (dict_keys actual_results_for_this_builder) (\<lambda>result_types.
        for_each (process_result_type c image_diff_db expected_builder_dicts builder_name
                    actual_results_for_this_builder)
          (sort result_types) st1))))"

text \<open>Lines 333-355: the two empty partitions with their result type columns, and
  the builders in sorted order, numbered from 1.\<close>

definition initial_state :: "gm_consts \<Rightarrow> 'h load_state" where
  "initial_state c =
     \<lparr>all_image_pairs =
        ensure_extra_column_values_in_summary COLUMN_RESULT_TYPE
          [KEY__RESULT_TYPE__FAILED c, KEY__RESULT_TYPE__FAILUREIGNORED c,
           KEY__RESULT_TYPE__NOCOMPARISON c, KEY__RESULT_TYPE__SUCCEEDED c] ImagePairSet,
      failing_image_pairs =
        ensure_extra_column_values_in_summary COLUMN_RESULT_TYPE
          [KEY__RESULT_TYPE__FAILED c, KEY__RESULT_TYPE__FAILUREIGNORED c,
           KEY__RESULT_TYPE__NOCOMPARISON c] ImagePairSet,
      log = []\<rparr>"

definition reconcile ::
  "gm_consts \<Rightarrow> 'h diff_store \<Rightarrow> meta_dict \<Rightarrow> meta_dict \<Rightarrow> 'h load_state \<Rightarrow>
   py_error + 'h load_state" where
  "reconcile c image_diff_db actual_builder_dicts expected_builder_dicts st =
     (let builders = sort (remdups (map fst actual_builder_dicts));
          num_builders = length builders
      in for_each (process_builder c image_diff_db actual_builder_dicts expected_builder_dicts
                     num_builders)
           (zip [1 ..< Suc num_builders] builders) st)"

text \<open>\<open>_load_actual_and_expected\<close>: both trees are read, then reconciled. The state
  returned holds the two partitions that become \<open>self._results\<close>.\<close>

definition load_actual_and_expected ::
  "gm_consts \<Rightarrow> 'h diff_store \<Rightarrow> filesystem \<Rightarrow> string \<Rightarrow> string \<Rightarrow> py_error + 'h load_state" where
  "load_actual_and_expected c image_diff_db fs actuals_root expected_root =
     and_then (read_dicts_from_root fs actuals_root) (\<lambda>actual_builder_dicts.
     and_then (read_dicts_from_root fs expected_root) (\<lambda>expected_builder_dicts.
     reconcile c image_diff_db actual_builder_dicts expected_builder_dicts
       (logging (Info_reading_expected expected_root)
         (logging (Info_reading_actuals actuals_root) (initial_state c)))))"

section \<open>Expectation Writer\<close>

text \<open>One step of the loops of \<open>_write_dicts_to_root\<close>, lines 300-309: the state is
  the disk and \<open>actual_builders_written\<close>.\<close>

definition write_step ::
  "meta_dict \<Rightarrow> string \<times> string \<Rightarrow> filesystem \<times> string list \<Rightarrow> filesystem \<times> string list" where
  "write_step meta_dict = (\<lambda>(dirpath, matching_filename) (fs, actual_builders_written).
     let builder = basename dirpath in
     if ignore_builder builder then (fs, actual_builders_written)
     else case map_of meta_dict builder of
            None \<Rightarrow> (fs, actual_builders_written)
          | Some per_builder_dict \<Rightarrow>
              if per_builder_dict \<noteq> JNull
              then (WriteToFile per_builder_dict (path_join dirpath matching_filename) fs,
                    actual_builders_written @ [builder])
              else (fs, actual_builders_written))"

definition write_dicts_to_root ::
  "meta_dict \<Rightarrow> filesystem \<Rightarrow> string \<Rightarrow> (py_error + unit) \<times> filesystem" where
  "write_dicts_to_root meta_dict fs root =
     (if \<not> isdir fs root then (Inl IOError, fs)
      else let (fs', actual_builders_written) =
                 fold (write_step meta_dict) (matching_files fs root) (fs, []);
               expected_builders_written = sort (remdups (map fst meta_dict))
           in if expected_builders_written \<noteq> sort actual_builders_written
              then (Inl KeyError, fs')
              else (Inr (), fs'))"

text \<open>Lines 132-146 of \<open>edit_expectations\<close>: the image name and the new expectation
  entry of one modification.\<close>

definition new_expectations :: "gm_consts \<Rightarrow> json \<Rightarrow> py_error + string \<times> json" where
  "new_expectations c modification =
     and_then (getitem modification (KEY__EXTRA_COLUMN_VALUES c)) (\<lambda>extra_column_values.
     and_then (getitem extra_column_values (KEY__EXTRACOLUMN__TEST c)) (\<lambda>test_name.
     and_then (getitem extra_column_values (KEY__EXTRACOLUMN__CONFIG c)) (\<lambda>config_name.
     and_then (getitem modification (KEY__NEW_IMAGE_URL c)) (\<lambda>new_image_url.
     and_then (SplitGmRelativeUrl c new_image_url) (\<lambda>(_, hash_type, hash_digest).
     and_then (py_int c hash_digest) (\<lambda>digest.
     and_then (for_each (\<lambda>field entry.
                  and_then (getitem modification (KEY__EXPECTATIONS_DATA c)) (\<lambda>expectations_data.
                  and_then (dict_get expectations_data field) (\<lambda>v.
                  Inr (if v \<noteq> JNull then AList.update field v entry else entry))))
                (EXPECTATION_FIELDS_PASSED_THRU_VERBATIM c)
                [(JSONKEY_EXPECTEDRESULTS_ALLOWEDDIGESTS c, JList [JList [hash_type, digest]])])
       (\<lambda>entry.
     Inr (IMAGE_FILENAME_FORMATTER c test_name config_name, JObj entry))))))))"

text \<open>The builder a modification names, as lines 147-149 read it.\<close>

definition mod_builder :: "gm_consts \<Rightarrow> json \<Rightarrow> py_error + json" where
  "mod_builder c modification =
     and_then (getitem modification (KEY__EXTRA_COLUMN_VALUES c)) (\<lambda>extra_column_values.
     getitem extra_column_values (KEY__EXTRACOLUMN__BUILDER c))"

text \<open>The document object of a builder is mutated in place; in the meta-dictionary
  that is the replacement of its binding.\<close>

fun meta_update :: "json \<Rightarrow> json \<Rightarrow> meta_dict \<Rightarrow> meta_dict" where
  "meta_update (JStr b) doc md = AList.update b doc md"
| "meta_update _ doc md = md"

text \<open>The body of the loop of \<open>edit_expectations\<close>, lines 132-154.\<close>

definition apply_modification :: "gm_consts \<Rightarrow> json \<Rightarrow> meta_dict \<Rightarrow> py_error + meta_dict" where
  "apply_modification c modification expected_builder_dicts =
     and_then (new_expectations c modification) (\<lambda>(image_name, entry).
     and_then (mod_builder c modification) (\<lambda>b.
     and_then (meta_getitem expected_builder_dicts b) (\<lambda>builder_dict.
     and_then (dict_get builder_dict (JSONKEY_EXPECTEDRESULTS c)) (\<lambda>found.
     and_then (if \<not> truthy found then Inr (JObj []) else Inr found) (\<lambda>builder_expectations.
     and_then (setitem builder_expectations image_name entry) (\<lambda>builder_expectations'.
     and_then (setitem builder_dict (JSONKEY_EXPECTEDRESULTS c) builder_expectations')
       (\<lambda>builder_dict'.
     Inr (meta_update b builder_dict' expected_builder_dicts))))))))"

definition edit_expectations ::
  "gm_consts \<Rightarrow> filesystem \<Rightarrow> string \<Rightarrow> json list \<Rightarrow> (py_error + unit) \<times> filesystem" where
  "edit_expectations c fs expected_root modifications =
     (case read_dicts_from_root fs expected_root of
        Inl e \<Rightarrow> (Inl e, fs)
      | Inr expected_builder_dicts \<Rightarrow>
          (case for_each (apply_modification c) modifications expected_builder_dicts of
             Inl e \<Rightarrow> (Inl e, fs)
           | Inr edited \<Rightarrow> write_dicts_to_root edited fs expected_root))"

section \<open>Results Service\<close>

text \<open>
  The header block is a dict literal with seven fixed keys, and the dict
  \<open>ImagePairSet.as_dict()\<close> returns has fixed keys too, among them
  \<open>imagepairset.KEY__IMAGEPAIRS\<close>; \<open>response_dict[results.KEY__HEADER]\<close> is one more
  fixed key, absent until \<open>get_packaged_results_of_type\<close> sets it.
\<close>

record header =
  header_schema_version :: int
  header_time_updated :: int
  header_time_next_update_available :: "int option"
  header_type :: string
  header_datahash :: string
  header_is_editable :: bool
  header_is_exported :: bool

record 'h response_dict =
  response_header :: "header option"
  imagePairs :: "'h image_pair list"
  extraColumnHeaders :: "(column \<times> string) list"

text \<open>
  Modelled from the spec: \<open>ImagePairSet.as_dict()\<close> is not in the sources at hand.
  A partition is its records together with the registry of the distinct values seen per
  column; it has no header.
\<close>

definition as_dict :: "'h image_pair_set \<Rightarrow> 'h response_dict" where
  "as_dict ps = \<lparr>response_header = None, imagePairs = image_pairs ps,
                 extraColumnHeaders = extra_column_values ps\<rparr>"

record 'h Results =
  self_actuals_root :: string
  self_expected_root :: string
  self_results :: "(string \<times> 'h response_dict) list"
  self_timestamp :: int

text \<open>The constructor; \<open>now\<close> is \<open>int(time.time())\<close> after the load.\<close>

definition Results_init ::
  "gm_consts \<Rightarrow> 'h diff_store \<Rightarrow> filesystem \<Rightarrow> string \<Rightarrow> string \<Rightarrow> int \<Rightarrow> py_error + 'h Results" where
  "Results_init c image_diff_db fs actuals_root expected_root now =
     and_then (load_actual_and_expected c image_diff_db fs actuals_root expected_root) (\<lambda>st.
     Inr \<lparr>self_actuals_root = actuals_root, self_expected_root = expected_root,
          self_results =
            AList.update (KEY__HEADER__RESULTS_FAILURES c) (as_dict (failing_image_pairs st))
              (AList.update (KEY__HEADER__RESULTS_ALL c) (as_dict (all_image_pairs st)) []),
          self_timestamp = now\<rparr>)"

definition get_timestamp :: "'h Results \<Rightarrow> int" where
  "get_timestamp self = self_timestamp self"

definition get_results_of_type :: "'h Results \<Rightarrow> string \<Rightarrow> py_error + 'h response_dict" where
  "get_results_of_type self results_type =
     (case map_of (self_results self) results_type of
        None \<Rightarrow> Inl KeyError
      | Some response \<Rightarrow> Inr response)"

text \<open>
  \<open>str_hash_repr\<close> is \<open>str(hash(repr(x)))\<close>, a function of the record list within one
  process. \<open>response_dict\<close> is the very object \<open>self._results\<close> holds, so the
  assignment of the header is a change of the instance: the function returns the
  response and the instance after the call.
\<close>

definition get_packaged_results_of_type ::
  "gm_consts \<Rightarrow> ('h image_pair list \<Rightarrow> string) \<Rightarrow> 'h Results \<Rightarrow> string \<Rightarrow> int option \<Rightarrow> bool \<Rightarrow>
   bool \<Rightarrow> (py_error + 'h response_dict) \<times> 'h Results" where
  "get_packaged_results_of_type c str_hash_repr self results_type reload_seconds is_editable
       is_exported =
     (case map_of (self_results self) results_type of
        None \<Rightarrow> (Inl KeyError, self)
      | Some response \<Rightarrow>
          (let time_updated = get_timestamp self;
               response' = response\<lparr>response_header := Some
                 \<lparr>header_schema_version = REBASELINE_SERVER_SCHEMA_VERSION_NUMBER c,
                  header_time_updated = time_updated,
                  header_time_next_update_available =
                    (case reload_seconds of
                       None \<Rightarrow> None
                     | Some n \<Rightarrow> if n \<noteq> 0 then Some (time_updated + n) else None),
                  header_type = results_type,
                  header_datahash = str_hash_repr (imagePairs response),
                  header_is_editable = is_editable,
                  header_is_exported = is_exported\<rparr>\<rparr>
           in (Inr response',
               self\<lparr>self_results := AList.update results_type response' (self_results self)\<rparr>)))"

section \<open>A concrete tree\<close>

text \<open>
  An instance of the parameters and a small pair of trees, for concrete runs: builder
  \<open>B1\<close> with four images, and a trybot directory next to it in the expected tree.
  \<open>testA\<close> failed but its expectation has caught up, \<open>testB\<close> failed and has no
  expectation, \<open>testC\<close> failed and has neither an actual digest nor an expectation,
  \<open>testD\<close> has nothing to compare with.
\<close>

definition example_digest :: "json \<Rightarrow> string" where
  "example_digest d =
     (if d = JInt 111 then ''111'' else if d = JInt 222 then ''222''
      else if d = JInt 333 then ''333'' else ''0'')"

definition example_consts :: gm_consts where
  "example_consts =
     \<lparr>JSONKEY_ACTUALRESULTS = ''actual-results'',
      JSONKEY_EXPECTEDRESULTS = ''expected-results'',
      JSONKEY_EXPECTEDRESULTS_ALLOWEDDIGESTS = ''allowed-digests'',
      KEY__EXPECTATIONS__BUGS = ''bugs'',
      KEY__EXPECTATIONS__IGNOREFAILURE = ''ignore-failure'',
      KEY__EXPECTATIONS__REVIEWED = ''reviewed-by-human'',
      KEY__RESULT_TYPE__FAILED = ''failed'',
      KEY__RESULT_TYPE__FAILUREIGNORED = ''failure-ignored'',
      KEY__RESULT_TYPE__NOCOMPARISON = ''no-comparison'',
      KEY__RESULT_TYPE__SUCCEEDED = ''succeeded'',
      KEY__HEADER__RESULTS_ALL = ''all'',
      KEY__HEADER__RESULTS_FAILURES = ''failures'',
      KEY__EXPECTATIONS_DATA = ''expectations'',
      KEY__EXTRA_COLUMN_VALUES = ''extraColumns'',
      KEY__EXTRACOLUMN__BUILDER = ''builder'',
      KEY__EXTRACOLUMN__CONFIG = ''config'',
      KEY__EXTRACOLUMN__TEST = ''test'',
      KEY__NEW_IMAGE_URL = ''newImageUrl'',
      GM_ACTUALS_ROOT_HTTP_URL = ''http://gm-actuals'',
      REBASELINE_SERVER_SCHEMA_VERSION_NUMBER = 2,
      IMAGE_FILENAME_RE_match = (\<lambda>name.
         if name = ''testA_8888.png'' then Some (''testA'', ''8888'')
         else if name = ''testB_565.png'' then Some (''testB'', ''565'')
         else if name = ''testC_gpu.png'' then Some (''testC'', ''gpu'')
         else if name = ''testD_8888.png'' then Some (''testD'', ''8888'')
         else None),
      IMAGE_FILENAME_FORMATTER = (\<lambda>t g.
         case (t, g) of (JStr a, JStr b) \<Rightarrow> a @ ''_'' @ b @ ''.png'' | _ \<Rightarrow> ''_.png''),
      CreateGmRelativeUrl = (\<lambda>test_name hash_type hash_digest.
         case hash_type of
           JStr h \<Rightarrow> Inr (h @ ''/'' @ test_name @ ''/'' @ example_digest hash_digest @ ''.png'')
         | _ \<Rightarrow> Inl TypeError),
      SplitGmRelativeUrl = (\<lambda>url.
         if url = JStr ''md5/testB/222.png'' then Inr (JStr ''testB'', JStr ''md5'', JInt 222)
         else if url = JStr ''md5/testA/333.png'' then Inr (JStr ''testA'', JStr ''md5'', JInt 333)
         else Inl ValueError),
      py_int = (\<lambda>v. case v of JInt n \<Rightarrow> Inr (JInt n) | _ \<Rightarrow> Inl TypeError)\<rparr>"

definition example_actual_doc :: json where
  "example_actual_doc =
     JObj [(''actual-results'', JObj
       [(''failed'', JObj
          [(''testA_8888.png'', JList [JStr ''md5'', JInt 111]),
           (''testB_565.png'', JList [JStr ''md5'', JInt 222]),
           (''testC_gpu.png'', JNull)]),
        (''no-comparison'', JObj
          [(''testD_8888.png'', JList [JStr ''md5'', JInt 333])])])]"

definition example_expected_doc :: json where
  "example_expected_doc =
     JObj [(''expected-results'', JObj
       [(''testA_8888.png'', JObj
          [(''allowed-digests'', JList [JList [JStr ''md5'', JInt 111]]),
           (''bugs'', JList [JInt 1234]),
           (''reviewed-by-human'', JBool True)])])]"

definition example_fs :: filesystem where
  "example_fs =
     \<lparr>isdir = (\<lambda>p. p = ''actuals'' \<or> p = ''expectations''),
      walk = (\<lambda>root.
         if root = ''actuals'' then
           [(''actuals'', [''B1''], []),
            (''actuals/B1'', [], [''actual-results.json''])]
         else if root = ''expectations'' then
           [(''expectations'', [''B1'', ''B2-Trybot''], []),
            (''expectations/B1'', [], [''expected-results.json'', ''README'']),
            (''expectations/B2-Trybot'', [], [''expected-results.json''])]
         else []),
      files = (\<lambda>p.
         if p = ''actuals/B1/actual-results.json'' then Inr example_actual_doc
         else if p = ''expectations/B1/expected-results.json'' then Inr example_expected_doc
         else if p = ''expectations/B2-Trybot/expected-results.json'' then Inr (JObj [])
         else Inl IOError)\<rparr>"

text \<open>Two Diff Stores: one that always answers, one that fails on \<open>testB\<close>.\<close>

definition example_db :: "unit diff_store" where
  "example_db a b = Inr ()"

definition failing_db :: "unit diff_store" where
  "failing_db a b = (if b = Some ''md5/testB/222.png'' then Inl IOError else Inr ())"

text \<open>What the run over the concrete tree returns with the Diff Store that always
  answers.\<close>

definition example_pair_A :: "unit image_pair" where
  "example_pair_A =
     \<lparr>base_url = ''http://gm-actuals'',
      imageA_relative_url = Some ''md5/testA/111.png'',
      imageB_relative_url = Some ''md5/testA/111.png'',
      expectations_dict = Some [(''bugs'', JList [JInt 1234]), (''ignore-failure'', JNull),
                                (''reviewed-by-human'', JBool True)],
      extra_columns_dict = \<lparr>col_result_type = ''succeeded'', col_builder = ''B1'',
                              col_test = ''testA'', col_config = ''8888''\<rparr>,
      diff_record = ()\<rparr>"

definition example_pair_B :: "unit image_pair" where
  "example_pair_B =
     \<lparr>base_url = ''http://gm-actuals'',
      imageA_relative_url = None,
      imageB_relative_url = Some ''md5/testB/222.png'',
      expectations_dict = None,
      extra_columns_dict = \<lparr>col_result_type = ''failed'', col_builder = ''B1'',
                              col_test = ''testB'', col_config = ''565''\<rparr>,
      diff_record = ()\<rparr>"

definition example_pair_C :: "unit image_pair" where
  "example_pair_C =
     \<lparr>base_url = ''http://gm-actuals'',
      imageA_relative_url = None,
      imageB_relative_url = None,
      expectations_dict = None,
      extra_columns_dict = \<lparr>col_result_type = ''succeeded'', col_builder = ''B1'',
                              col_test = ''testC'', col_config = ''gpu''\<rparr>,
      diff_record = ()\<rparr>"

definition example_pair_D :: "unit image_pair" where
  "example_pair_D =
     \<lparr>base_url = ''http://gm-actuals'',
      imageA_relative_url = None,
      imageB_relative_url = Some ''md5/testD/333.png'',
      expectations_dict = None,
      extra_columns_dict = \<lparr>col_result_type = ''no-comparison'', col_builder = ''B1'',
                              col_test = ''testD'', col_config = ''8888''\<rparr>,
      diff_record = ()\<rparr>"

definition example_state :: "unit load_state" where
  "example_state =
     \<lparr>all_image_pairs =
        \<lparr>image_pairs = [example_pair_A, example_pair_B, example_pair_C, example_pair_D],
         extra_column_values =
           [(COLUMN_TEST, ''testD''), (COLUMN_CONFIG, ''gpu''), (COLUMN_TEST, ''testC''),
            (COLUMN_CONFIG, ''565''), (COLUMN_TEST, ''testB''), (COLUMN_CONFIG, ''8888''),
            (COLUMN_TEST, ''testA''), (COLUMN_BUILDER, ''B1''),
            (COLUMN_RESULT_TYPE, ''succeeded''), (COLUMN_RESULT_TYPE, ''no-comparison''),
            (COLUMN_RESULT_TYPE, ''failure-ignored''), (COLUMN_RESULT_TYPE, ''failed'')]\<rparr>,
      failing_image_pairs =
        \<lparr>image_pairs = [example_pair_B, example_pair_D],
         extra_column_values =
           [(COLUMN_CONFIG, ''8888''), (COLUMN_TEST, ''testD''), (COLUMN_CONFIG, ''565''),
            (COLUMN_TEST, ''testB''), (COLUMN_BUILDER, ''B1''),
            (COLUMN_RESULT_TYPE, ''no-comparison''), (COLUMN_RESULT_TYPE, ''failure-ignored''),
            (COLUMN_RESULT_TYPE, ''failed'')]\<rparr>,
      log =
        [Info_reading_actuals ''actuals'', Info_reading_expected ''expectations'',
         Info_generating_pixel_diffs 1 1 ''B1'',
         Warning_no_expectations ''B1'' ''failed'' ''testB_565.png'',
         Warning_no_expectations ''B1'' ''failed'' ''testC_gpu.png'']\<rparr>"

section \<open>Invariants of the reconciliation\<close>

text \<open>
  The two partitions agree: the failures-only partition is the all-records partition
  without the records classified SUCCEEDED, and a record whose two image references are
  equal is classified SUCCEEDED.
\<close>

definition consistent :: "gm_consts \<Rightarrow> 'h load_state \<Rightarrow> bool" where
  "consistent c st \<longleftrightarrow>
     image_pairs (failing_image_pairs st) =
       filter (\<lambda>p. col_result_type (extra_columns_dict p) \<noteq> KEY__RESULT_TYPE__SUCCEEDED c)
         (image_pairs (all_image_pairs st)) \<and>
     (\<forall>p \<in> set (image_pairs (all_image_pairs st)).
        imageA_relative_url p = imageB_relative_url p \<longrightarrow>
        col_result_type (extra_columns_dict p) = KEY__RESULT_TYPE__SUCCEEDED c)"

section \<open>Observations on a run\<close>

text \<open>
  To compare the run with a Diff Store that may fail against the run with a Diff Store
  that always answers: a record without its diff handle, whether the store answers for
  the two references of a record, and the kinds of log entries.
\<close>

definition forget_diff :: "'h image_pair \<Rightarrow> unit image_pair" where
  "forget_diff p =
     \<lparr>base_url = base_url p, imageA_relative_url = imageA_relative_url p,
      imageB_relative_url = imageB_relative_url p, expectations_dict = expectations_dict p,
      extra_columns_dict = extra_columns_dict p, diff_record = ()\<rparr>"

definition diff_store_answers :: "'h diff_store \<Rightarrow> unit image_pair \<Rightarrow> bool" where
  "diff_store_answers image_diff_db p =
     (case image_diff_db (imageA_relative_url p) (imageB_relative_url p) of
        Inl e \<Rightarrow> False | Inr h \<Rightarrow> True)"

definition is_exception :: "log_entry \<Rightarrow> bool" where
  "is_exception e = (case e of Exception_creating_ImagePair x \<Rightarrow> True | _ \<Rightarrow> False)"

definition drops_failures :: "'h diff_store \<Rightarrow> 'h load_state \<Rightarrow> unit load_state \<Rightarrow> bool" where
  "drops_failures image_diff_db st st0 \<longleftrightarrow>
     map forget_diff (image_pairs (all_image_pairs st)) =
       filter (diff_store_answers image_diff_db) (image_pairs (all_image_pairs st0)) \<and>
     map forget_diff (image_pairs (failing_image_pairs st)) =
       filter (diff_store_answers image_diff_db) (image_pairs (failing_image_pairs st0)) \<and>
     filter (\<lambda>e. \<not> is_exception e) (log st) = log st0 \<and>
     length (filter is_exception (log st)) =
       length (filter (\<lambda>p. \<not> diff_store_answers image_diff_db p)
                 (image_pairs (all_image_pairs st0)))"


section \<open>A concrete instance of the Results Service\<close>

text \<open>A stand-in for \<open>str(hash(repr(x)))\<close>, and the instance the constructor builds
  from the concrete tree at time 1000.\<close>

definition example_token :: "unit image_pair list \<Rightarrow> string" where
  "example_token ps = replicate (length ps) CHR ''#''"

definition example_results :: "unit Results" where
  "example_results =
     \<lparr>self_actuals_root = ''actuals'', self_expected_root = ''expectations'',
      self_results = [(''all'', as_dict (all_image_pairs example_state)),
                      (''failures'', as_dict (failing_image_pairs example_state))],
      self_timestamp = 1000\<rparr>"

section \<open>A concrete modification\<close>


section \<open>Observations on the Expectation Writer\<close>

text \<open>The builder and image name a modification targets, whether
  \<open>_write_dicts_to_root\<close> writes a (dirpath, file name) pair for a meta-dictionary, and
  the full path of such a pair.\<close>

definition modification_target :: "gm_consts \<Rightarrow> json \<Rightarrow> (json \<times> string) option" where
  "modification_target c modification =
     (case mod_builder c modification of
        Inl e \<Rightarrow> None
      | Inr b \<Rightarrow>
          (case new_expectations c modification of
             Inl e \<Rightarrow> None
           | Inr (image_name, entry) \<Rightarrow> Some (b, image_name)))"

definition written_by :: "meta_dict \<Rightarrow> string \<times> string \<Rightarrow> bool" where
  "written_by meta_dict = (\<lambda>(dirpath, matching_filename).
     \<not> ignore_builder (basename dirpath) \<and>
     (case map_of meta_dict (basename dirpath) of
        None \<Rightarrow> False
      | Some per_builder_dict \<Rightarrow> per_builder_dict \<noteq> JNull))"

definition full_path :: "string \<times> string \<Rightarrow> string" where
  "full_path = (\<lambda>(dirpath, matching_filename). path_join dirpath matching_filename)"

text \<open>Two modifications for the same image of builder \<open>B1\<close>.\<close>

definition example_modification_1 :: json where
  "example_modification_1 =
     JObj [(''expectations'', JObj [(''bugs'', JList [JInt 7])]),
           (''extraColumns'', JObj [(''builder'', JStr ''B1''), (''config'', JStr ''8888''),
                                    (''test'', JStr ''testA'')]),
           (''newImageUrl'', JStr ''md5/testB/222.png'')]"

definition example_modification_2 :: json where
  "example_modification_2 =
     JObj [(''expectations'', JObj [(''bugs'', JNull), (''reviewed-by-human'', JBool True)]),
           (''extraColumns'', JObj [(''builder'', JStr ''B1''), (''config'', JStr ''8888''),
                                    (''test'', JStr ''testA'')]),
           (''newImageUrl'', JStr ''md5/testA/333.png'')]"

section \<open>The expectation entry as the specification words it\<close>

text \<open>
  For comparison with \<open>new_expectations\<close>: the image identity of a modification
  (from its test and its configuration), its digest reference (hash type and digest of
  its new image URL), and the entry made of that digest reference plus the verbatim
  fields the modification supplies with a non-null value. The entry is given as the
  mapping from keys to values that a dict is.
\<close>

definition digest_reference :: "gm_consts \<Rightarrow> json \<Rightarrow> py_error + json \<times> json" where
  "digest_reference c modification =
     and_then (getitem modification (KEY__NEW_IMAGE_URL c)) (\<lambda>new_image_url.
     and_then (SplitGmRelativeUrl c new_image_url) (\<lambda>(_, hash_type, hash_digest).
     and_then (py_int c hash_digest) (\<lambda>digest.
     Inr (hash_type, digest))))"

definition image_identity :: "gm_consts \<Rightarrow> json \<Rightarrow> py_error + string" where
  "image_identity c modification =
     and_then (getitem modification (KEY__EXTRA_COLUMN_VALUES c)) (\<lambda>extra_column_values.
     and_then (getitem extra_column_values (KEY__EXTRACOLUMN__TEST c)) (\<lambda>test_name.
     and_then (getitem extra_column_values (KEY__EXTRACOLUMN__CONFIG c)) (\<lambda>config_name.
     Inr (IMAGE_FILENAME_FORMATTER c test_name config_name))))"

definition entry_as_specified ::
  "gm_consts \<Rightarrow> json \<times> json \<Rightarrow> (string \<times> json) list \<Rightarrow> string \<Rightarrow> json option" where
  "entry_as_specified c reference supplied k =
     (let digest_field =
            (if k = JSONKEY_EXPECTEDRESULTS_ALLOWEDDIGESTS c
             then Some (JList [JList [fst reference, snd reference]]) else None)
      in if k \<in> set (EXPECTATION_FIELDS_PASSED_THRU_VERBATIM c)
         then (case map_of supplied k of
                 None \<Rightarrow> digest_field
               | Some v \<Rightarrow> if v \<noteq> JNull then Some v else digest_field)
         else digest_field)"


section \<open>Properties of the Tree Loader\<close>

lemma for_each_invariant:
  assumes "for_each f xs s = Inr s'" and "P s"
    and "\<And>x t t'. x \<in> set xs \<Longrightarrow> P t \<Longrightarrow> f x t = Inr t' \<Longrightarrow> P t'"
  shows "P s'"
  using assms
proof (induction xs arbitrary: s)
  case Nil
  then show ?case by simp
next
  case (Cons x xs)
  from Cons.prems(1) obtain t where t: "f x s = Inr t" and rest: "for_each f xs t = Inr s'"
    by (auto split: sum.splits)
  have "P t" using Cons.prems(3) [of x s t] Cons.prems(2) t by simp
  moreover have "\<And>y u u'. y \<in> set xs \<Longrightarrow> P u \<Longrightarrow> f y u = Inr u' \<Longrightarrow> P u'"
    using Cons.prems(3) by (meson list.set_intros(2))
  ultimately show ?case using rest Cons.IH by blast
qed

lemma read_step_keeps_out:
  assumes "ignore_builder b" and "b \<notin> fst ` set md" and "read_step fs x md = Inr md'"
  shows "b \<notin> fst ` set md'"
proof (cases x)
  case (Pair dirpath matching_filename)
  show ?thesis
  proof (cases "ignore_builder (basename dirpath)")
    case True
    with assms Pair show ?thesis by (simp add: read_step_def)
  next
    case False
    with assms(1) have neq: "basename dirpath \<noteq> b" by auto
    from assms(3) Pair False obtain doc where "md' = AList.update (basename dirpath) doc md"
      by (auto simp: read_step_def Let_def split: sum.splits)
    then have "fst ` set md' = {basename dirpath} \<union> fst ` set md"
      by (simp add: dom_update)
    with neq assms(2) show ?thesis by simp
  qed
qed

text \<open>
  C7. A builder name that ends in \<open>-Trybot\<close> or contains \<open>Valgrind\<close>, \<open>TSAN\<close> or
  \<open>ASAN\<close> is never a key of the mapping \<open>_read_dicts_from_root\<close> returns, whatever the
  directory tree holds.
\<close>

theorem ignored_builder_never_loaded:
  assumes "(\<exists>p. b = p @ ''-Trybot'') \<or> (\<exists>p s. b = p @ ''Valgrind'' @ s) \<or>
           (\<exists>p s. b = p @ ''TSAN'' @ s) \<or> (\<exists>p s. b = p @ ''ASAN'' @ s)"
    and "read_dicts_from_root fs root = Inr meta_dict"
  shows "b \<notin> fst ` set meta_dict \<and> map_of meta_dict b = None"
proof -
  from assms(1) have ign: "ignore_builder b"
    unfolding ignore_builder_def suffix_def sublist_def by blast
  from assms(2) have run: "for_each (read_step fs) (matching_files fs root) [] = Inr meta_dict"
    by (simp add: read_dicts_from_root_def split: if_splits)
  have "b \<notin> fst ` set meta_dict"
    by (rule for_each_invariant [OF run, where P = "\<lambda>md. b \<notin> fst ` set md"])
       (simp, erule (1) read_step_keeps_out [OF ign])
  then show ?thesis by (simp add: map_of_eq_None_iff)
qed

lemma example_expected_tree:
  "read_dicts_from_root example_fs ''expectations'' = Inr [(''B1'', example_expected_doc)]"
  by code_simp

theorem ignored_builder_never_loaded_witness:
  "read_dicts_from_root example_fs ''expectations'' = Inr [(''B1'', example_expected_doc)] \<and>
   ''B2-Trybot'' \<notin> fst ` set [(''B1'', example_expected_doc)] \<and>
   map_of [(''B1'', example_expected_doc)] ''B2-Trybot'' = None"
proof -
  have "\<exists>p. ''B2-Trybot'' = p @ ''-Trybot''"
    by (rule exI [of _ "''B2''"]) simp
  then have hyp:
    "(\<exists>p. ''B2-Trybot'' = p @ ''-Trybot'') \<or> (\<exists>p s. ''B2-Trybot'' = p @ ''Valgrind'' @ s) \<or>
     (\<exists>p s. ''B2-Trybot'' = p @ ''TSAN'' @ s) \<or> (\<exists>p s. ''B2-Trybot'' = p @ ''ASAN'' @ s)"
    by (rule disjI1)
  from ignored_builder_never_loaded [OF hyp example_expected_tree] example_expected_tree
  show ?thesis by simp
qed

section \<open>Properties of the Reconciliation Engine\<close>

lemma and_then_Inr_iff: "and_then r f = Inr y \<longleftrightarrow> (\<exists>v. r = Inr v \<and> f v = Inr y)"
  by (cases r) (simp_all add: and_then_def)

lemma and_then_simps: "and_then (Inl e) f = Inl e" "and_then (Inr v) f = f v"
  by (simp_all add: and_then_def)

lemma image_pairs_add:
  "image_pairs (add_image_pair p ps) = image_pairs ps @ [p]"
  by (simp add: add_image_pair_def Let_def)

lemma image_pairs_ensure:
  "image_pairs (ensure_extra_column_values_in_summary col vs ps) = image_pairs ps"
  by (simp add: ensure_extra_column_values_in_summary_def)

lemma consistent_logging: "consistent c (logging e st) = consistent c st"
  by (simp add: consistent_def logging_def)

lemma consistent_emit:
  assumes "consistent c st" and "a = b \<longrightarrow> col_result_type x = KEY__RESULT_TYPE__SUCCEEDED c"
  shows "consistent c (emit_image_pair c db a b e x st)"
  using assms
  by (auto simp: consistent_def emit_image_pair_def ImagePair_def logging_def Let_def image_pairs_add
      split: sum.splits)

lemma consistent_process_image:
  assumes "consistent c st" and "process_image c db E b rt rs img st = Inr st'"
  shows "consistent c st'"
proof -
  from assms(2) obtain t g a ex st1 eu where
    fe: "find_expectations c E b rt img t st = Inr ((eu, ex), st1)" and
    st': "st' = emit_image_pair c db eu a ex
                 \<lparr>col_result_type = updated_result_type c eu a rt,
                  col_builder = b, col_test = t, col_config = g\<rparr> st1"
    by (auto simp: process_image_def and_then_Inr_iff split: option.splits prod.splits)
  from fe assms(1) have "consistent c st1"
    by (auto simp: find_expectations_def consistent_logging split: sum.splits if_splits prod.splits)
  then show ?thesis unfolding st'
    by (rule consistent_emit) (simp add: updated_result_type_def)
qed

lemma consistent_process_result_type:
  assumes "consistent c st" and "process_result_type c db E b ar rt st = Inr st'"
  shows "consistent c st'"
proof -
  from assms(2) obtain rs where rs: "getitem ar rt = Inr rs" and
    body: "(if \<not> truthy rs then Inr st
            else and_then (dict_keys rs) (\<lambda>names.
                   for_each (process_image c db E b rt rs) (sort names) st)) = Inr st'"
    by (auto simp: process_result_type_def and_then_Inr_iff)
  show ?thesis
  proof (cases "truthy rs")
    case False
    with body assms(1) show ?thesis by simp
  next
    case True
    with body obtain names where
      "for_each (process_image c db E b rt rs) (sort names) st = Inr st'"
      by (auto simp: and_then_Inr_iff)
    then show ?thesis
      by (rule for_each_invariant [where P = "consistent c"])
         (simp_all add: assms(1) consistent_process_image)
  qed
qed

lemma consistent_process_builder:
  assumes "consistent c st" and "process_builder c db A E n x st = Inr st'"
  shows "consistent c st'"
proof (cases x)
  case (Pair k b)
  from assms(2) Pair obtain ar rts where
    "for_each (process_result_type c db E b ar) (sort rts)
       (logging (Info_generating_pixel_diffs k n b) st) = Inr st'"
    by (auto simp: process_builder_def Let_def and_then_Inr_iff)
  then show ?thesis
    by (rule for_each_invariant [where P = "consistent c"])
       (simp_all add: assms(1) consistent_logging consistent_process_result_type)
qed

lemma consistent_reconcile:
  assumes "consistent c st" and "reconcile c db A E st = Inr st'"
  shows "consistent c st'"
  using assms(2) unfolding reconcile_def Let_def
  by (rule for_each_invariant [where P = "consistent c"])
     (simp_all add: assms(1) consistent_process_builder)

lemma consistent_initial: "consistent c (initial_state c)"
  by (simp add: consistent_def initial_state_def image_pairs_ensure ImagePairSet_def)

lemma consistent_load:
  assumes "load_actual_and_expected c db fs ar er = Inr st"
  shows "consistent c st"
proof -
  from assms obtain A E where
    "reconcile c db A E (logging (Info_reading_expected er)
         (logging (Info_reading_actuals ar) (initial_state c))) = Inr st"
    by (auto simp: load_actual_and_expected_def and_then_Inr_iff)
  then show ?thesis
    by (rule consistent_reconcile [rotated]) (simp add: consistent_logging consistent_initial)
qed


text \<open>
  C2. Every record that reconciliation emits and whose expected image reference equals
  its actual image reference is classified SUCCEEDED, whatever label the actual tree
  stored the image under: line 432 compares the two references and nothing else.
\<close>

theorem equal_references_succeeded:
  assumes "load_actual_and_expected c image_diff_db fs actuals_root expected_root = Inr st"
    and "p \<in> set (image_pairs (all_image_pairs st)) \<or>
         p \<in> set (image_pairs (failing_image_pairs st))"
    and "imageA_relative_url p = imageB_relative_url p"
  shows "col_result_type (extra_columns_dict p) = KEY__RESULT_TYPE__SUCCEEDED c \<and>
         updated_result_type c (imageA_relative_url p) (imageB_relative_url p) result_type
           = KEY__RESULT_TYPE__SUCCEEDED c"
proof -
  from assms(1) have inv: "consistent c st" by (rule consistent_load)
  from assms(2) inv have "p \<in> set (image_pairs (all_image_pairs st))"
    by (auto simp: consistent_def)
  with inv assms(3) show ?thesis
    by (simp add: consistent_def updated_result_type_def)
qed

text \<open>
  C10. The failures-only partition is the all-records partition restricted to the
  records whose final classification is not SUCCEEDED, in the same order; so every
  record of the failures-only partition is a record of the all-records partition.
\<close>

theorem failures_subset_of_all:
  assumes "load_actual_and_expected c image_diff_db fs actuals_root expected_root = Inr st"
  shows "image_pairs (failing_image_pairs st) =
           filter (\<lambda>p. col_result_type (extra_columns_dict p) \<noteq> KEY__RESULT_TYPE__SUCCEEDED c)
             (image_pairs (all_image_pairs st)) \<and>
         set (image_pairs (failing_image_pairs st)) \<subseteq> set (image_pairs (all_image_pairs st))"
proof -
  from assms have "consistent c st" by (rule consistent_load)
  then have "image_pairs (failing_image_pairs st) =
           filter (\<lambda>p. col_result_type (extra_columns_dict p) \<noteq> KEY__RESULT_TYPE__SUCCEEDED c)
             (image_pairs (all_image_pairs st))"
    by (simp add: consistent_def)
  then show ?thesis by auto
qed

section \<open>The run over the concrete tree\<close>

lemmas step_defs = process_image_def emit_image_pair_def updated_result_type_def
  find_expectations_def try_expectations_def expectations_per_test_def create_relative_url_def
  logging_def ImagePair_def and_then_def EXPECTATION_FIELDS_PASSED_THRU_VERBATIM_def
  example_consts_def example_db_def example_digest_def example_expected_doc_def

lemma example_step_A: "process_image example_consts example_db [(''B1'', example_expected_doc)] ''B1'' ''failed''
   (JObj [(''testA_8888.png'', JList [JStr ''md5'', JInt 111]),
           (''testB_565.png'', JList [JStr ''md5'', JInt 222]),
           (''testC_gpu.png'', JNull)]) ''testA_8888.png'' st
  = Inr (st\<lparr>all_image_pairs := add_image_pair example_pair_A (all_image_pairs st)\<rparr>)"
  by (simp add: step_defs example_pair_A_def)

lemma example_step_B: "process_image example_consts example_db [(''B1'', example_expected_doc)] ''B1'' ''failed''
   (JObj [(''testA_8888.png'', JList [JStr ''md5'', JInt 111]),
           (''testB_565.png'', JList [JStr ''md5'', JInt 222]),
           (''testC_gpu.png'', JNull)]) ''testB_565.png'' st
  = Inr (st\<lparr>all_image_pairs := add_image_pair example_pair_B (all_image_pairs st),
     failing_image_pairs := add_image_pair example_pair_B (failing_image_pairs st),
     log := log st @ [Warning_no_expectations ''B1'' ''failed'' ''testB_565.png'']\<rparr>)"
  by (simp add: step_defs example_pair_B_def)

lemma example_step_C: "process_image example_consts example_db [(''B1'', example_expected_doc)] ''B1'' ''failed''
   (JObj [(''testA_8888.png'', JList [JStr ''md5'', JInt 111]),
           (''testB_565.png'', JList [JStr ''md5'', JInt 222]),
           (''testC_gpu.png'', JNull)]) ''testC_gpu.png'' st
  = Inr (st\<lparr>all_image_pairs := add_image_pair example_pair_C (all_image_pairs st),
     log := log st @ [Warning_no_expectations ''B1'' ''failed'' ''testC_gpu.png'']\<rparr>)"
  by (simp add: step_defs example_pair_C_def)

lemma example_step_D: "process_image example_consts example_db [(''B1'', example_expected_doc)] ''B1'' ''no-comparison''
   (JObj [(''testD_8888.png'', JList [JStr ''md5'', JInt 333])]) ''testD_8888.png'' st
  = Inr (st\<lparr>all_image_pairs := add_image_pair example_pair_D (all_image_pairs st),
     failing_image_pairs := add_image_pair example_pair_D (failing_image_pairs st)\<rparr>)"
  by (simp add: step_defs example_pair_D_def)

lemma example_sort_result_types: "sort [''failed'', ''no-comparison''] = [''failed'', ''no-comparison'']"
  by code_simp
lemma example_sort_images: "sort [''testA_8888.png'', ''testB_565.png'', ''testC_gpu.png''] = [''testA_8888.png'', ''testB_565.png'', ''testC_gpu.png'']"
  by code_simp

lemma example_actual_tree: "read_dicts_from_root example_fs ''actuals'' = Inr [(''B1'', example_actual_doc)]"
  by code_simp

lemma example_actual_key: "JSONKEY_ACTUALRESULTS example_consts = ''actual-results''"
  by (simp add: example_consts_def)

lemma example_reconcile:
  "reconcile example_consts example_db [(''B1'', example_actual_doc)] [(''B1'', example_expected_doc)] st
   = Inr (st\<lparr>all_image_pairs :=
             add_image_pair example_pair_D (add_image_pair example_pair_C
               (add_image_pair example_pair_B (add_image_pair example_pair_A (all_image_pairs st)))),
           failing_image_pairs :=
             add_image_pair example_pair_D (add_image_pair example_pair_B (failing_image_pairs st)),
           log := log st @ [Info_generating_pixel_diffs 1 1 ''B1'',
              Warning_no_expectations ''B1'' ''failed'' ''testB_565.png'',
              Warning_no_expectations ''B1'' ''failed'' ''testC_gpu.png'']\<rparr>)"
  by (simp add: reconcile_def process_builder_def process_result_type_def and_then_def
       example_actual_doc_def example_sort_result_types example_sort_images example_step_A example_step_B example_step_C example_step_D logging_def
       example_actual_key)

lemma example_result_types:
  "KEY__RESULT_TYPE__FAILED example_consts = ''failed''"
  "KEY__RESULT_TYPE__FAILUREIGNORED example_consts = ''failure-ignored''"
  "KEY__RESULT_TYPE__NOCOMPARISON example_consts = ''no-comparison''"
  "KEY__RESULT_TYPE__SUCCEEDED example_consts = ''succeeded''"
  by (simp_all add: example_consts_def)

lemma example_run:
  "load_actual_and_expected example_consts example_db example_fs ''actuals'' ''expectations''
     = Inr example_state"
  by (simp add: load_actual_and_expected_def example_actual_tree example_expected_tree example_reconcile and_then_def
       logging_def initial_state_def example_state_def add_image_pair_def ImagePairSet_def
       ensure_extra_column_values_in_summary_def example_result_types List.insert_def
       example_pair_A_def example_pair_B_def example_pair_C_def example_pair_D_def)

theorem equal_references_succeeded_witness:
  "load_actual_and_expected example_consts example_db example_fs ''actuals'' ''expectations''
     = Inr example_state \<and>
   example_pair_A \<in> set (image_pairs (all_image_pairs example_state)) \<and>
   imageA_relative_url example_pair_A = imageB_relative_url example_pair_A \<and>
   col_result_type (extra_columns_dict example_pair_A) = ''succeeded'' \<and>
   updated_result_type example_consts (Some ''md5/testA/111.png'') (Some ''md5/testA/111.png'')
     ''failed'' = ''succeeded''"
proof -
  have mem: "example_pair_A \<in> set (image_pairs (all_image_pairs example_state))"
    by (simp add: example_state_def)
  have eq: "imageA_relative_url example_pair_A = imageB_relative_url example_pair_A"
    by (simp add: example_pair_A_def)
  from equal_references_succeeded [OF example_run disjI1 [OF mem] eq, of "''failed''"]
    example_run mem eq
  show ?thesis by (simp add: example_pair_A_def example_consts_def)
qed

theorem failures_subset_of_all_witness:
  "load_actual_and_expected example_consts example_db example_fs ''actuals'' ''expectations''
     = Inr example_state \<and>
   image_pairs (failing_image_pairs example_state) = [example_pair_B, example_pair_D] \<and>
   image_pairs (all_image_pairs example_state) =
     [example_pair_A, example_pair_B, example_pair_C, example_pair_D] \<and>
   set [example_pair_B, example_pair_D] \<subseteq>
     set [example_pair_A, example_pair_B, example_pair_C, example_pair_D]"
  using failures_subset_of_all [OF example_run] example_run
  by (simp add: example_state_def)

section \<open>Missing expectations\<close>





section \<open>Failures of the Diff Store\<close>

lemma for_each_rel:
  assumes "R s t" and "\<And>x s t. R s t \<Longrightarrow> rel_sum (=) R (f x s) (g x t)"
  shows "rel_sum (=) R (for_each f xs s) (for_each g xs t)"
  using assms(1)
proof (induction xs arbitrary: s t)
  case Nil
  then show ?case by simp
next
  case (Cons x xs)
  have step: "rel_sum (=) R (f x s) (g x t)" by (rule assms(2) [OF Cons.prems])
  show ?case
  proof (cases "f x s")
    case (Inl e)
    with step show ?thesis by (cases "g x t") simp_all
  next
    case (Inr s')
    with step obtain t' where t': "g x t = Inr t'" and r: "R s' t'"
      by (cases "g x t") simp_all
    from Cons.IH [OF r] Inr t' show ?thesis by simp
  qed
qed

lemma drops_logging:
  "\<not> is_exception e \<Longrightarrow> drops_failures db st st0 \<Longrightarrow>
   drops_failures db (logging e st) (logging e st0)"
  by (simp add: drops_failures_def logging_def)

lemma drops_emit:
  assumes "drops_failures db st st0"
  shows "drops_failures db (emit_image_pair c db eu a ex x st)
           (emit_image_pair c (\<lambda>a b. Inr ()) eu a ex x st0)"
proof (cases "db eu a")
  case (Inl e)
  with assms show ?thesis
    by (simp add: drops_failures_def emit_image_pair_def ImagePair_def logging_def Let_def
          image_pairs_add diff_store_answers_def is_exception_def)
next
  case (Inr h)
  with assms show ?thesis
    by (simp add: drops_failures_def emit_image_pair_def ImagePair_def Let_def
          image_pairs_add diff_store_answers_def forget_diff_def)
qed

lemma find_expectations_rel:
  assumes "drops_failures db st st0"
  shows "rel_sum (=) (\<lambda>(r, s) (r0, s0). r = r0 \<and> drops_failures db s s0)
           (find_expectations c E b rt img t st) (find_expectations c E b rt img t st0)"
  using assms
  by (auto simp: find_expectations_def drops_logging is_exception_def split: sum.splits)

lemma drops_process_image:
  assumes "drops_failures db st st0"
  shows "rel_sum (=) (drops_failures db) (process_image c db E b rt rs img st)
           (process_image c (\<lambda>a b. Inr ()) E b rt rs img st0)"
proof (cases "IMAGE_FILENAME_RE_match c img")
  case None
  then show ?thesis by (simp add: process_image_def)
next
  case (Some tg)
  obtain t g where tg: "tg = (t, g)" by (cases tg)
  show ?thesis
  proof (cases "getitem rs img")
    case (Inl e)
    with Some tg show ?thesis by (simp add: process_image_def and_then_def)
  next
    case d: (Inr d)
    show ?thesis
    proof (cases "create_relative_url c d t")
      case (Inl e)
      with Some tg d show ?thesis by (simp add: process_image_def and_then_def)
    next
      case a: (Inr a)
      have fe: "rel_sum (=) (\<lambda>(r, s) (r0, s0). r = r0 \<and> drops_failures db s s0)
             (find_expectations c E b rt img t st) (find_expectations c E b rt img t st0)"
        by (rule find_expectations_rel [OF assms])
      show ?thesis
      proof (cases "find_expectations c E b rt img t st")
        case (Inl e)
        with fe have "find_expectations c E b rt img t st0 = Inl e"
          by (cases "find_expectations c E b rt img t st0") simp_all
        with Inl Some tg d a show ?thesis by (simp add: process_image_def and_then_def)
      next
        case (Inr x)
        with fe obtain y where y: "find_expectations c E b rt img t st0 = Inr y"
          and xy: "fst x = fst y \<and> drops_failures db (snd x) (snd y)"
          by (cases "find_expectations c E b rt img t st0") (auto split: prod.splits)
        with Inr Some tg d a show ?thesis
          by (cases x, cases y) (auto simp: process_image_def and_then_def drops_emit)
      qed
    qed
  qed
qed

lemma drops_process_result_type:
  assumes "drops_failures db st st0"
  shows "rel_sum (=) (drops_failures db) (process_result_type c db E b ar rt st)
           (process_result_type c (\<lambda>a b. Inr ()) E b ar rt st0)"
proof (cases "getitem ar rt")
  case (Inl e)
  then show ?thesis by (simp add: process_result_type_def and_then_def)
next
  case (Inr rs)
  show ?thesis
  proof (cases "dict_keys rs")
    case (Inl e)
    with Inr assms show ?thesis by (simp add: process_result_type_def and_then_def)
  next
    case ks: (Inr ks)
    with Inr assms show ?thesis
      by (simp add: process_result_type_def and_then_def
            for_each_rel [where R = "drops_failures db"] drops_process_image)
  qed
qed

lemma drops_process_builder:
  assumes "drops_failures db st st0"
  shows "rel_sum (=) (drops_failures db) (process_builder c db A E n x st)
           (process_builder c (\<lambda>a b. Inr ()) A E n x st0)"
proof -
  obtain k b where x: "x = (k, b)" by (cases x)
  have l: "drops_failures db (logging (Info_generating_pixel_diffs k n b) st)
             (logging (Info_generating_pixel_diffs k n b) st0)"
    using assms by (simp add: drops_logging is_exception_def)
  show ?thesis unfolding x
    by (auto simp: process_builder_def Let_def and_then_def drops_process_result_type
          intro!: for_each_rel [where R = "drops_failures db", OF l] split: sum.splits)
qed

lemma drops_reconcile:
  assumes "drops_failures db st st0"
  shows "rel_sum (=) (drops_failures db) (reconcile c db A E st)
           (reconcile c (\<lambda>a b. Inr ()) A E st0)"
  unfolding reconcile_def Let_def
  by (rule for_each_rel [where R = "drops_failures db", OF assms]) (rule drops_process_builder)

lemma drops_initial: "drops_failures db (initial_state c) (initial_state c)"
  by (simp add: drops_failures_def initial_state_def image_pairs_ensure ImagePairSet_def)

lemma drops_load:
  "rel_sum (=) (drops_failures db) (load_actual_and_expected c db fs ar er)
     (load_actual_and_expected c (\<lambda>a b. Inr ()) fs ar er)"
proof -
  have "drops_failures db
          (logging (Info_reading_expected er) (logging (Info_reading_actuals ar) (initial_state c)))
          (logging (Info_reading_expected er) (logging (Info_reading_actuals ar) (initial_state c)))"
    by (simp add: drops_logging drops_initial is_exception_def)
  then show ?thesis
    by (auto simp: load_actual_and_expected_def and_then_def drops_reconcile split: sum.splits)
qed

text \<open>
  C3. Whatever the Diff Store does, the run ends as the run with a Diff Store that
  always answers ends: with the same exception, or with a result. In the result, each
  partition holds exactly the records for which the Diff Store answered, in the same
  order (a record for which it failed is in neither partition), the log holds one
  exception entry for each record dropped, and the other log entries are unchanged.
\<close>

theorem diff_store_failure_drops_record:
  "(case load_actual_and_expected c (\<lambda>a b. Inr ()) fs actuals_root expected_root of
      Inl e \<Rightarrow> load_actual_and_expected c image_diff_db fs actuals_root expected_root = Inl e
    | Inr st0 \<Rightarrow>
        (\<exists>st. load_actual_and_expected c image_diff_db fs actuals_root expected_root = Inr st \<and>
           map forget_diff (image_pairs (all_image_pairs st)) =
             filter (diff_store_answers image_diff_db) (image_pairs (all_image_pairs st0)) \<and>
           map forget_diff (image_pairs (failing_image_pairs st)) =
             filter (diff_store_answers image_diff_db) (image_pairs (failing_image_pairs st0)) \<and>
           filter (\<lambda>e. \<not> is_exception e) (log st) = log st0 \<and>
           length (filter is_exception (log st)) =
             length (filter (\<lambda>p. \<not> diff_store_answers image_diff_db p)
                       (image_pairs (all_image_pairs st0)))))"
proof -
  have r: "rel_sum (=) (drops_failures image_diff_db)
             (load_actual_and_expected c image_diff_db fs actuals_root expected_root)
             (load_actual_and_expected c (\<lambda>a b. Inr ()) fs actuals_root expected_root)"
    by (rule drops_load)
  show ?thesis
  proof (cases "load_actual_and_expected c (\<lambda>a b. Inr ()) fs actuals_root expected_root")
    case (Inl e)
    with r show ?thesis
      by (cases "load_actual_and_expected c image_diff_db fs actuals_root expected_root") simp_all
  next
    case (Inr st0)
    with r show ?thesis
      by (cases "load_actual_and_expected c image_diff_db fs actuals_root expected_root")
         (simp_all add: drops_failures_def)
  qed
qed

section \<open>Concrete runs with a failing Diff Store and with missing expectations\<close>

lemma example_db_answers: "example_db = (\<lambda>a b. Inr ())"
  by (simp add: fun_eq_iff example_db_def)

theorem diff_store_failure_drops_record_witness:
  "\<exists>st. load_actual_and_expected example_consts failing_db example_fs ''actuals'' ''expectations''
          = Inr st \<and>
        map forget_diff (image_pairs (all_image_pairs st)) =
          [example_pair_A, example_pair_C, example_pair_D] \<and>
        map forget_diff (image_pairs (failing_image_pairs st)) = [example_pair_D] \<and>
        length (filter is_exception (log st)) = 1"
proof -
  have run: "load_actual_and_expected example_consts (\<lambda>a b. Inr ()) example_fs ''actuals''
               ''expectations'' = Inr example_state"
    using example_run by (simp add: example_db_answers)
  have all: "filter (diff_store_answers failing_db) (image_pairs (all_image_pairs example_state))
               = [example_pair_A, example_pair_C, example_pair_D]"
    by (simp add: example_state_def diff_store_answers_def failing_db_def example_pair_A_def
          example_pair_B_def example_pair_C_def example_pair_D_def)
  have failing:
    "filter (diff_store_answers failing_db) (image_pairs (failing_image_pairs example_state))
       = [example_pair_D]"
    by (simp add: example_state_def diff_store_answers_def failing_db_def
          example_pair_B_def example_pair_D_def)
  have dropped:
    "length (filter (\<lambda>p. \<not> diff_store_answers failing_db p)
               (image_pairs (all_image_pairs example_state))) = 1"
    by (simp add: example_state_def diff_store_answers_def failing_db_def example_pair_A_def
          example_pair_B_def example_pair_C_def example_pair_D_def)
  from diff_store_failure_drops_record
         [where c = example_consts and fs = example_fs and actuals_root = "''actuals''"
            and expected_root = "''expectations''" and image_diff_db = failing_db]
  show ?thesis
    unfolding run by (auto simp: all failing dropped)
qed


section \<open>Reclassification\<close>





section \<open>Properties of the Results Service\<close>

lemma map_of_update_same: "map_of (AList.update k v al) k = Some v"
  by (simp add: update_conv')

lemma packaged_Inr:
  assumes "fst (get_packaged_results_of_type c h self kind rs ed ex) = Inr d"
  shows "\<exists>d0. map_of (self_results self) kind = Some d0 \<and>
           d = d0\<lparr>response_header := Some
                 \<lparr>header_schema_version = REBASELINE_SERVER_SCHEMA_VERSION_NUMBER c,
                  header_time_updated = self_timestamp self,
                  header_time_next_update_available =
                    (case rs of None \<Rightarrow> None
                     | Some n \<Rightarrow> if n \<noteq> 0 then Some (self_timestamp self + n) else None),
                  header_type = kind,
                  header_datahash = h (imagePairs d0),
                  header_is_editable = ed,
                  header_is_exported = ex\<rparr>\<rparr> \<and>
           snd (get_packaged_results_of_type c h self kind rs ed ex) =
             self\<lparr>self_results := AList.update kind d (self_results self)\<rparr>"
  using assms
  by (auto simp: get_packaged_results_of_type_def get_timestamp_def Let_def split: option.splits)

text \<open>
  C8. When \<open>get_packaged_results_of_type\<close> has returned for a kind, a second call for
  the same kind on the instance it leaves behind returns too, whatever the other
  arguments are, and the two headers carry the same data token: the token of the
  record list of the partition, which the first call did not change.
\<close>

theorem token_stable:
  assumes "fst (get_packaged_results_of_type c str_hash_repr self results_type
                  reload_seconds1 is_editable1 is_exported1) = Inr d1"
  shows "\<exists>d2 token.
           fst (get_packaged_results_of_type c str_hash_repr
                  (snd (get_packaged_results_of_type c str_hash_repr self results_type
                          reload_seconds1 is_editable1 is_exported1))
                  results_type reload_seconds2 is_editable2 is_exported2) = Inr d2 \<and>
           map_option header_datahash (response_header d1) = Some token \<and>
           map_option header_datahash (response_header d2) = Some token"
proof -
  from packaged_Inr [OF assms] obtain d0 where
    d0: "map_of (self_results self) results_type = Some d0" and
    d1: "imagePairs d1 = imagePairs d0"
        "map_option header_datahash (response_header d1) = Some (str_hash_repr (imagePairs d0))" and
    self1: "snd (get_packaged_results_of_type c str_hash_repr self results_type
                   reload_seconds1 is_editable1 is_exported1) =
              self\<lparr>self_results := AList.update results_type d1 (self_results self)\<rparr>"
    by auto
  show ?thesis
    unfolding self1 using d1
    by (simp add: get_packaged_results_of_type_def Let_def map_of_update_same)
qed

lemma fresh_partitions:
  assumes "Results_init c db fs ar er now = Inr self"
    and "map_of (self_results self) kind = Some d0"
  shows "response_header d0 = None"
  using assms
  by (auto simp: Results_init_def and_then_Inr_iff update_conv' as_dict_def split: if_splits)

text \<open>
  C9. \<open>get_packaged_results_of_type\<close> changes the instance: afterwards
  \<open>get_results_of_type\<close> for the same kind returns the response that was returned, which
  carries the header block. On an instance fresh from the constructor the partition had
  no header, so what \<open>get_results_of_type\<close> returns is no longer the raw partition.
\<close>

theorem packaging_mutates_stored_partition:
  assumes "fst (get_packaged_results_of_type c str_hash_repr self results_type
                  reload_seconds is_editable is_exported) = Inr d"
  shows "get_results_of_type
           (snd (get_packaged_results_of_type c str_hash_repr self results_type
                   reload_seconds is_editable is_exported)) results_type = Inr d \<and>
         response_header d \<noteq> None \<and>
         (Results_init c image_diff_db fs actuals_root expected_root now = Inr self \<longrightarrow>
            (\<exists>d0. get_results_of_type self results_type = Inr d0 \<and>
                  response_header d0 = None \<and> d0 \<noteq> d \<and>
                  imagePairs d = imagePairs d0))"
proof -
  from packaged_Inr [OF assms] obtain d0 where
    d0: "map_of (self_results self) results_type = Some d0" and
    hd: "response_header d \<noteq> None" and ip: "imagePairs d = imagePairs d0" and
    self1: "snd (get_packaged_results_of_type c str_hash_repr self results_type
                   reload_seconds is_editable is_exported) =
              self\<lparr>self_results := AList.update results_type d (self_results self)\<rparr>"
    by auto
  have a: "get_results_of_type
           (snd (get_packaged_results_of_type c str_hash_repr self results_type
                   reload_seconds is_editable is_exported)) results_type = Inr d"
    unfolding self1 by (simp add: get_results_of_type_def map_of_update_same)
  have b: "Results_init c image_diff_db fs actuals_root expected_root now = Inr self \<longrightarrow>
            (\<exists>d0. get_results_of_type self results_type = Inr d0 \<and>
                  response_header d0 = None \<and> d0 \<noteq> d \<and>
                  imagePairs d = imagePairs d0)"
  proof
    assume "Results_init c image_diff_db fs actuals_root expected_root now = Inr self"
    from fresh_partitions [OF this d0] have "response_header d0 = None" .
    with d0 hd ip show "\<exists>d0. get_results_of_type self results_type = Inr d0 \<and>
                  response_header d0 = None \<and> d0 \<noteq> d \<and> imagePairs d = imagePairs d0"
      by (auto simp: get_results_of_type_def)
  qed
  from a hd b show ?thesis by blast
qed

lemma example_result_keys:
  "KEY__HEADER__RESULTS_ALL example_consts = ''all''"
  "KEY__HEADER__RESULTS_FAILURES example_consts = ''failures''"
  by (simp_all add: example_consts_def)

lemma example_init:
  "Results_init example_consts example_db example_fs ''actuals'' ''expectations'' 1000
     = Inr example_results"
  by (simp add: Results_init_def example_run and_then_def example_results_def
        example_result_keys)

lemma example_packaged:
  "fst (get_packaged_results_of_type example_consts example_token example_results ''failures''
          (Some 60) False True) =
     Inr ((as_dict (failing_image_pairs example_state))\<lparr>response_header := Some
            \<lparr>header_schema_version = 2, header_time_updated = 1000,
             header_time_next_update_available = Some 1060, header_type = ''failures'',
             header_datahash = ''##'', header_is_editable = False,
             header_is_exported = True\<rparr>\<rparr>)"
  by (simp add: get_packaged_results_of_type_def get_timestamp_def example_results_def Let_def
        example_consts_def example_token_def as_dict_def example_state_def)

theorem token_stable_witness:
  "\<exists>d2. fst (get_packaged_results_of_type example_consts example_token
                (snd (get_packaged_results_of_type example_consts example_token example_results
                        ''failures'' (Some 60) False True))
                ''failures'' None True False) = Inr d2 \<and>
         map_option header_datahash (response_header d2) = Some ''##''"
  using token_stable [OF example_packaged, of None True False]
  by auto

theorem packaging_mutates_stored_partition_witness:
  "Results_init example_consts example_db example_fs ''actuals'' ''expectations'' 1000
     = Inr example_results \<and>
   get_results_of_type example_results ''failures''
     = Inr (as_dict (failing_image_pairs example_state)) \<and>
   response_header (as_dict (failing_image_pairs example_state)) = None \<and>
   (\<exists>d. get_results_of_type
          (snd (get_packaged_results_of_type example_consts example_token example_results
                  ''failures'' (Some 60) False True)) ''failures'' = Inr d \<and>
        response_header d \<noteq> None \<and>
        d \<noteq> as_dict (failing_image_pairs example_state))"
proof -
  have raw: "get_results_of_type example_results ''failures''
               = Inr (as_dict (failing_image_pairs example_state))"
    by (simp add: get_results_of_type_def example_results_def)
  have none: "response_header (as_dict (failing_image_pairs example_state)) = None"
    by (simp add: as_dict_def)
  from packaging_mutates_stored_partition [OF example_packaged, of example_db example_fs
         "''actuals''" "''expectations''" 1000] example_init raw none
  show ?thesis by auto
qed

section \<open>Properties of the Expectation Writer\<close>

lemma for_each_append:
  "for_each f (xs @ ys) s = (case for_each f xs s of Inl e \<Rightarrow> Inl e | Inr s' \<Rightarrow> for_each f ys s')"
  by (induction xs arbitrary: s) (auto split: sum.splits)

lemma meta_getitem_Inr:
  "meta_getitem md b = Inr d \<longleftrightarrow> (\<exists>k. b = JStr k \<and> map_of md k = Some d)"
  by (cases b) (auto split: option.splits)








section \<open>Replacement of expectation entries\<close>

lemma dict_get_Inr: "dict_get d k = Inr v \<Longrightarrow> \<exists>kvs. d = JObj kvs"
  by (cases d) simp_all

lemma setitem_Inr: "setitem d k v = Inr d' \<longleftrightarrow> (\<exists>kvs. d = JObj kvs \<and> d' = JObj (AList.update k v kvs))"
  by (cases d) auto

lemma and_then_if: "and_then (if P then Inr a else Inr b) f = f (if P then a else b)"
  by (simp add: and_then_def)

lemma apply_modification_Inr:
  assumes "apply_modification c m md = Inr md'"
  obtains img entry b kvs l where
    "new_expectations c m = Inr (img, entry)" "mod_builder c m = Inr (JStr b)"
    "map_of md b = Some (JObj kvs)"
    "JObj l = (case map_of kvs (JSONKEY_EXPECTEDRESULTS c) of None \<Rightarrow> JObj []
               | Some found \<Rightarrow> if truthy found then found else JObj [])"
    "md' = AList.update b
             (JObj (AList.update (JSONKEY_EXPECTEDRESULTS c) (JObj (AList.update img entry l)) kvs))
             md"
proof -
  from assms obtain img entry bj bd found be be' bd' where
    ne: "new_expectations c m = Inr (img, entry)" and mb: "mod_builder c m = Inr bj" and
    mg: "meta_getitem md bj = Inr bd" and dg: "dict_get bd (JSONKEY_EXPECTEDRESULTS c) = Inr found" and
    be: "be = (if \<not> truthy found then JObj [] else found)" and
    s1: "setitem be img entry = Inr be'" and
    s2: "setitem bd (JSONKEY_EXPECTEDRESULTS c) be' = Inr bd'" and
    md': "md' = meta_update bj bd' md"
    unfolding apply_modification_def and_then_if
    by (auto simp: and_then_Inr_iff split: prod.splits)
  from mg obtain b where b: "bj = JStr b" "map_of md b = Some bd"
    by (auto simp: meta_getitem_Inr)
  from dg obtain kvs where kvs: "bd = JObj kvs" by (auto dest: dict_get_Inr)
  from s1 obtain l where l: "be = JObj l" "be' = JObj (AList.update img entry l)"
    by (auto simp: setitem_Inr)
  from s2 kvs have bd': "bd' = JObj (AList.update (JSONKEY_EXPECTEDRESULTS c) be' kvs)"
    by (auto simp: setitem_Inr)
  from dg kvs be l have "JObj l = (case map_of kvs (JSONKEY_EXPECTEDRESULTS c) of None \<Rightarrow> JObj []
               | Some found \<Rightarrow> if truthy found then found else JObj [])"
    by (auto split: option.splits)
  with that [of img entry b kvs l] ne mb b kvs l bd' md' show thesis by simp
qed

lemma apply_modification_stores:
  assumes "apply_modification c m md = Inr md'"
    and "new_expectations c m = Inr (img, entry)" and "mod_builder c m = Inr (JStr b)"
  shows "expectations_per_test c md' b img = Inr entry"
  using assms(1)
proof (rule apply_modification_Inr)
  fix img' entry' b' kvs l
  assume "new_expectations c m = Inr (img', entry')" "mod_builder c m = Inr (JStr b')"
    and "md' = AList.update b'
           (JObj (AList.update (JSONKEY_EXPECTEDRESULTS c) (JObj (AList.update img' entry' l)) kvs))
           md"
  with assms(2,3) show ?thesis
    by (simp add: expectations_per_test_def and_then_def update_conv')
qed

lemma expectations_per_test_Inr:
  "expectations_per_test c md b img = Inr entry \<longleftrightarrow>
     (\<exists>kvs l. map_of md b = Some (JObj kvs) \<and>
              map_of kvs (JSONKEY_EXPECTEDRESULTS c) = Some (JObj l) \<and> map_of l img = Some entry)"
proof
  assume "expectations_per_test c md b img = Inr entry"
  then obtain bd er where a: "map_of md b = Some bd"
    and b: "getitem bd (JSONKEY_EXPECTEDRESULTS c) = Inr er" and c: "getitem er img = Inr entry"
    by (auto simp: expectations_per_test_def and_then_Inr_iff split: option.splits)
  from b obtain kvs where "bd = JObj kvs" "map_of kvs (JSONKEY_EXPECTEDRESULTS c) = Some er"
    by (cases bd) (auto split: option.splits)
  moreover from c obtain l where "er = JObj l" "map_of l img = Some entry"
    by (cases er) (auto split: option.splits)
  ultimately show "\<exists>kvs l. map_of md b = Some (JObj kvs) \<and>
              map_of kvs (JSONKEY_EXPECTEDRESULTS c) = Some (JObj l) \<and> map_of l img = Some entry"
    using a by simp
next
  assume "\<exists>kvs l. map_of md b = Some (JObj kvs) \<and>
              map_of kvs (JSONKEY_EXPECTEDRESULTS c) = Some (JObj l) \<and> map_of l img = Some entry"
  then show "expectations_per_test c md b img = Inr entry"
    by (auto simp: expectations_per_test_def and_then_def)
qed

lemma apply_modification_preserves:
  assumes "apply_modification c m md = Inr md'"
    and "modification_target c m \<noteq> Some (JStr b, img)"
    and "expectations_per_test c md b img = Inr entry"
  shows "expectations_per_test c md' b img = Inr entry"
  using assms(1)
proof (rule apply_modification_Inr)
  fix img' entry' b' kvs l
  assume ne: "new_expectations c m = Inr (img', entry')" and mb: "mod_builder c m = Inr (JStr b')"
    and doc: "map_of md b' = Some (JObj kvs)"
    and l: "JObj l = (case map_of kvs (JSONKEY_EXPECTEDRESULTS c) of None \<Rightarrow> JObj []
               | Some found \<Rightarrow> if truthy found then found else JObj [])"
    and md': "md' = AList.update b'
           (JObj (AList.update (JSONKEY_EXPECTEDRESULTS c) (JObj (AList.update img' entry' l)) kvs))
           md"
  from ne mb assms(2) have diff: "b' \<noteq> b \<or> img' \<noteq> img"
    by (auto simp: modification_target_def)
  from assms(3) obtain kvs0 l0 where old: "map_of md b = Some (JObj kvs0)"
    "map_of kvs0 (JSONKEY_EXPECTEDRESULTS c) = Some (JObj l0)" "map_of l0 img = Some entry"
    by (auto simp: expectations_per_test_Inr)
  show ?thesis
  proof (cases "b' = b")
    case False
    with old md' show ?thesis by (simp add: expectations_per_test_Inr update_conv')
  next
    case True
    with diff have img: "img' \<noteq> img" by simp
    from True doc old have k: "kvs = kvs0" by simp
    from old(3) have "l0 \<noteq> []" by auto
    with l k old(2) have "l = l0" by simp
    with True md' img old k show ?thesis by (simp add: expectations_per_test_Inr update_conv')
  qed
qed

lemma later_modification_wins:
  assumes "for_each (apply_modification c) (before @ m # rest) md = Inr md'"
    and "new_expectations c m = Inr (img, entry)" and "mod_builder c m = Inr (JStr b)"
    and "\<forall>m' \<in> set rest. modification_target c m' \<noteq> Some (JStr b, img)"
  shows "expectations_per_test c md' b img = Inr entry"
proof -
  from assms(1) obtain md1 md2 where
    "apply_modification c m md1 = Inr md2" and rest: "for_each (apply_modification c) rest md2 = Inr md'"
    by (auto simp: for_each_append split: sum.splits)
  then have "expectations_per_test c md2 b img = Inr entry"
    using assms(2,3) by (simp add: apply_modification_stores)
  with rest show ?thesis
    by (rule for_each_invariant [where P = "\<lambda>x. expectations_per_test c x b img = Inr entry"])
       (use assms(4) in \<open>auto intro: apply_modification_preserves\<close>)
qed

lemma write_step_eq:
  "write_step md x (fs, w) =
     (if written_by md x
      then (WriteToFile (the (map_of md (basename (fst x)))) (full_path x) fs,
            w @ [basename (fst x)])
      else (fs, w))"
  by (cases x) (auto simp: write_step_def written_by_def full_path_def Let_def split: option.splits)

lemma write_fold:
  assumes "distinct (map full_path L)" and "fold (write_step md) L (fs0, w0) = (fs1, w1)"
  shows "w1 = w0 @ map (\<lambda>x. basename (fst x)) (filter (written_by md) L) \<and>
         (\<forall>x \<in> set L. files fs1 (full_path x) =
            (if written_by md x then Inr (the (map_of md (basename (fst x))))
             else files fs0 (full_path x))) \<and>
         (\<forall>p. p \<notin> full_path ` set L \<longrightarrow> files fs1 p = files fs0 p)"
  using assms
proof (induction L arbitrary: fs0 w0)
  case Nil
  then show ?case by simp
next
  case (Cons x L)
  let ?fs = "if written_by md x
             then WriteToFile (the (map_of md (basename (fst x)))) (full_path x) fs0 else fs0"
  let ?w = "if written_by md x then w0 @ [basename (fst x)] else w0"
  from Cons.prems(2) have run: "fold (write_step md) L (?fs, ?w) = (fs1, w1)"
    by (cases "written_by md x") (simp_all add: write_step_eq)
  from Cons.prems(1) have d: "distinct (map full_path L)" and nx: "full_path x \<notin> full_path ` set L"
    by simp_all
  note IH = Cons.IH [OF d run]
  have here: "files ?fs (full_path x) =
        (if written_by md x then Inr (the (map_of md (basename (fst x))))
         else files fs0 (full_path x))"
    by (simp add: WriteToFile_def)
  have other: "files ?fs p = files fs0 p" if "p \<noteq> full_path x" for p
    using that by (simp add: WriteToFile_def)
  from IH have w: "w1 = w0 @ map (\<lambda>x. basename (fst x)) (filter (written_by md) (x # L))"
    by simp
  have a: "\<forall>y \<in> set (x # L). files fs1 (full_path y) =
            (if written_by md y then Inr (the (map_of md (basename (fst y))))
             else files fs0 (full_path y))"
  proof
    fix y assume y: "y \<in> set (x # L)"
    show "files fs1 (full_path y) =
            (if written_by md y then Inr (the (map_of md (basename (fst y))))
             else files fs0 (full_path y))"
    proof (cases "y \<in> set L")
      case True
      with nx have "full_path y \<noteq> full_path x" by (metis imageI)
      with IH True other show ?thesis by simp
    next
      case False
      with y have "y = x" by simp
      with IH nx here show ?thesis by simp
    qed
  qed
  have b: "\<forall>p. p \<notin> full_path ` set (x # L) \<longrightarrow> files fs1 p = files fs0 p"
    using IH other by simp
  from w a b show ?case by blast
qed

lemma verbatim_loop:
  assumes "getitem m key = Inr (JObj supplied)"
  shows "\<exists>e1. for_each (\<lambda>field entry.
                  and_then (getitem m key) (\<lambda>expectations_data.
                  and_then (dict_get expectations_data field) (\<lambda>v.
                  Inr (if v \<noteq> JNull then AList.update field v entry else entry))))
                flds e0 = Inr e1 \<and>
              (\<forall>k. map_of e1 k =
                   (if k \<in> set flds
                    then (case map_of supplied k of
                            None \<Rightarrow> map_of e0 k
                          | Some v \<Rightarrow> if v \<noteq> JNull then Some v else map_of e0 k)
                    else map_of e0 k))"
proof (induction flds arbitrary: e0)
  case Nil
  then show ?case by simp
next
  case (Cons x flds)
  let ?e = "case map_of supplied x of
              None \<Rightarrow> e0
            | Some v \<Rightarrow> if v \<noteq> JNull then AList.update x v e0 else e0"
  have step: "and_then (getitem m key) (\<lambda>expectations_data.
                and_then (dict_get expectations_data x) (\<lambda>v.
                Inr (if v \<noteq> JNull then AList.update x v e0 else e0))) = Inr ?e"
    by (simp add: assms and_then_def split: option.splits)
  from Cons.IH [of ?e] obtain e1 where
    run: "for_each (\<lambda>field entry.
                  and_then (getitem m key) (\<lambda>expectations_data.
                  and_then (dict_get expectations_data field) (\<lambda>v.
                  Inr (if v \<noteq> JNull then AList.update field v entry else entry))))
                flds ?e = Inr e1" and
    m: "\<And>k. map_of e1 k =
                   (if k \<in> set flds
                    then (case map_of supplied k of
                            None \<Rightarrow> map_of ?e k
                          | Some v \<Rightarrow> if v \<noteq> JNull then Some v else map_of ?e k)
                    else map_of ?e k)"
    by blast
  have e: "map_of ?e k = (if k = x then (case map_of supplied x of
                            None \<Rightarrow> map_of e0 k
                          | Some v \<Rightarrow> if v \<noteq> JNull then Some v else map_of e0 k)
                          else map_of e0 k)" for k
    by (simp add: update_conv' split: option.splits)
  have "\<forall>k. map_of e1 k =
                   (if k \<in> set (x # flds)
                    then (case map_of supplied k of
                            None \<Rightarrow> map_of e0 k
                          | Some v \<Rightarrow> if v \<noteq> JNull then Some v else map_of e0 k)
                    else map_of e0 k)"
  proof
    fix k
    show "map_of e1 k =
                   (if k \<in> set (x # flds)
                    then (case map_of supplied k of
                            None \<Rightarrow> map_of e0 k
                          | Some v \<Rightarrow> if v \<noteq> JNull then Some v else map_of e0 k)
                    else map_of e0 k)"
      unfolding m [of k] e [of k] by (auto split: option.splits)
  qed
  with step run show ?case by simp
qed

lemma new_expectations_as_specified:
  assumes "new_expectations c m = Inr (image_name, entry)"
  shows "\<exists>reference supplied kvs.
           image_identity c m = Inr image_name \<and>
           digest_reference c m = Inr reference \<and>
           getitem m (KEY__EXPECTATIONS_DATA c) = Inr (JObj supplied) \<and>
           entry = JObj kvs \<and>
           map_of kvs = entry_as_specified c reference supplied"
proof -
  let ?body = "\<lambda>field entry.
                  and_then (getitem m (KEY__EXPECTATIONS_DATA c)) (\<lambda>expectations_data.
                  and_then (dict_get expectations_data field) (\<lambda>v.
                  Inr (if v \<noteq> JNull then AList.update field v entry else entry)))"
  from assms obtain ecv test_name config_name url t hash_type hash_digest digest kvs where
    a: "getitem m (KEY__EXTRA_COLUMN_VALUES c) = Inr ecv"
       "getitem ecv (KEY__EXTRACOLUMN__TEST c) = Inr test_name"
       "getitem ecv (KEY__EXTRACOLUMN__CONFIG c) = Inr config_name" and
    b: "getitem m (KEY__NEW_IMAGE_URL c) = Inr url"
       "SplitGmRelativeUrl c url = Inr (t, hash_type, hash_digest)"
       "py_int c hash_digest = Inr digest" and
    loop: "for_each ?body (EXPECTATION_FIELDS_PASSED_THRU_VERBATIM c)
             [(JSONKEY_EXPECTEDRESULTS_ALLOWEDDIGESTS c, JList [JList [hash_type, digest]])]
           = Inr kvs" and
    res: "image_name = IMAGE_FILENAME_FORMATTER c test_name config_name" "entry = JObj kvs"
    by (auto simp: new_expectations_def and_then_Inr_iff split: prod.splits)
  from loop obtain ed v where "getitem m (KEY__EXPECTATIONS_DATA c) = Inr ed"
    "dict_get ed (KEY__EXPECTATIONS__BUGS c) = Inr v"
    by (auto simp: EXPECTATION_FIELDS_PASSED_THRU_VERBATIM_def and_then_Inr_iff split: sum.splits)
  then obtain supplied where s: "getitem m (KEY__EXPECTATIONS_DATA c) = Inr (JObj supplied)"
    by (auto dest: dict_get_Inr)
  from verbatim_loop [OF s, of "EXPECTATION_FIELDS_PASSED_THRU_VERBATIM c"
         "[(JSONKEY_EXPECTEDRESULTS_ALLOWEDDIGESTS c, JList [JList [hash_type, digest]])]"] loop
  have "\<forall>k. map_of kvs k = entry_as_specified c (hash_type, digest) supplied k"
    by (auto simp: entry_as_specified_def Let_def split: option.splits)
  then have "map_of kvs = entry_as_specified c (hash_type, digest) supplied" by (simp add: fun_eq_iff)
  moreover have "image_identity c m = Inr image_name"
    by (simp add: image_identity_def and_then_def a res)
  moreover have "digest_reference c m = Inr (hash_type, digest)"
    by (simp add: digest_reference_def and_then_def b)
  ultimately show ?thesis using s res by blast
qed

text \<open>
  C6. When \<open>edit_expectations\<close> returns, take the last modification of the list that
  targets a builder and an image name. The entry built from it is the entry the
  specification words: for the image identity of the modification, the digest reference
  under the allowed-digests key plus each verbatim field the modification supplies with
  a non-null value, and nothing else. The builder has a file under the expected root,
  and each file of that builder now holds a document whose entry for the image is
  exactly that entry: whatever the file held for the image before, and whatever earlier
  modifications of the list set, is gone. The files are identified by their full paths,
  which \<open>os.walk\<close> lists once each.
\<close>

theorem later_modification_persisted:
  assumes "fst (edit_expectations c fs expected_root modifications) = Inr ()"
    and "modifications = before @ m # rest"
    and "mod_builder c m = Inr (JStr b)"
    and "new_expectations c m = Inr (image_name, entry)"
    and "\<forall>m' \<in> set rest. modification_target c m' \<noteq> Some (JStr b, image_name)"
    and "distinct (map full_path (matching_files fs expected_root))"
  shows "(\<exists>x \<in> set (matching_files fs expected_root). basename (fst x) = b) \<and>
         (\<forall>x \<in> set (matching_files fs expected_root). basename (fst x) = b \<longrightarrow>
            (\<exists>kvs. LoadFromFile (snd (edit_expectations c fs expected_root modifications))
                     (full_path x) = Inr (JObj kvs) \<and>
                   expectations_per_test c [(b, JObj kvs)] b image_name = Inr entry)) \<and>
         (\<exists>reference supplied kvs.
            image_identity c m = Inr image_name \<and>
            digest_reference c m = Inr reference \<and>
            getitem m (KEY__EXPECTATIONS_DATA c) = Inr (JObj supplied) \<and>
            entry = JObj kvs \<and>
            map_of kvs = entry_as_specified c reference supplied)"
proof -
  let ?L = "matching_files fs expected_root"
  from assms(1) obtain md0 md1 where
    "read_dicts_from_root fs expected_root = Inr md0" and
    app: "for_each (apply_modification c) modifications md0 = Inr md1" and
    edit: "edit_expectations c fs expected_root modifications =
             write_dicts_to_root md1 fs expected_root"
    by (auto simp: edit_expectations_def split: sum.splits)
  obtain fs1 w where fold: "fold (write_step md1) ?L (fs, []) = (fs1, w)"
    by (cases "fold (write_step md1) ?L (fs, [])")
  from assms(1) edit fold have
    fs1: "snd (edit_expectations c fs expected_root modifications) = fs1" and
    same: "sort (remdups (map fst md1)) = sort w"
    by (auto simp: write_dicts_to_root_def Let_def split: if_splits)
  from write_fold [OF assms(6) fold] have
    w: "w = map (\<lambda>x. basename (fst x)) (filter (written_by md1) ?L)" and
    files: "\<And>x. x \<in> set ?L \<Longrightarrow> written_by md1 x \<Longrightarrow>
              files fs1 (full_path x) = Inr (the (map_of md1 (basename (fst x))))"
    by simp_all
  from app assms(2-5) have "expectations_per_test c md1 b image_name = Inr entry"
    by (simp add: later_modification_wins)
  then obtain kvs l where doc: "map_of md1 b = Some (JObj kvs)"
    and er: "map_of kvs (JSONKEY_EXPECTEDRESULTS c) = Some (JObj l)"
    and en: "map_of l image_name = Some entry"
    by (auto simp: expectations_per_test_Inr)
  from doc have "b \<in> set (sort (remdups (map fst md1)))"
    by (force dest: map_of_SomeD)
  with same have "b \<in> set w" by simp
  with w obtain x0 where x0: "x0 \<in> set ?L" "written_by md1 x0" "basename (fst x0) = b"
    by auto
  then have ign: "\<not> ignore_builder b" by (cases x0) (auto simp: written_by_def)
  have all: "\<exists>kvs. LoadFromFile fs1 (full_path x) = Inr (JObj kvs) \<and>
               expectations_per_test c [(b, JObj kvs)] b image_name = Inr entry"
    if "x \<in> set ?L" "basename (fst x) = b" for x
  proof -
    from that(2) ign doc have "written_by md1 x" by (cases x) (simp add: written_by_def)
    from files [OF that(1) this] that(2) doc
    have "LoadFromFile fs1 (full_path x) = Inr (JObj kvs)" by (simp add: LoadFromFile_def)
    moreover from er en have "expectations_per_test c [(b, JObj kvs)] b image_name = Inr entry"
      by (simp add: expectations_per_test_Inr)
    ultimately show ?thesis by blast
  qed
  have built: "\<exists>reference supplied kvs.
            image_identity c m = Inr image_name \<and>
            digest_reference c m = Inr reference \<and>
            getitem m (KEY__EXPECTATIONS_DATA c) = Inr (JObj supplied) \<and>
            entry = JObj kvs \<and>
            map_of kvs = entry_as_specified c reference supplied"
    by (rule new_expectations_as_specified [OF assms(4)])
  have stored: "(\<exists>x \<in> set ?L. basename (fst x) = b) \<and>
         (\<forall>x \<in> set ?L. basename (fst x) = b \<longrightarrow>
            (\<exists>kvs. LoadFromFile fs1 (full_path x) = Inr (JObj kvs) \<and>
                   expectations_per_test c [(b, JObj kvs)] b image_name = Inr entry))"
    using x0 all by blast
  from stored built show ?thesis unfolding fs1 by blast
qed

lemma example_matching_files:
  "matching_files example_fs ''expectations'' =
     [(''expectations/B1'', ''expected-results.json''),
      (''expectations/B2-Trybot'', ''expected-results.json'')]"
  by code_simp

lemma example_isdir: "isdir example_fs ''expectations''"
  by (simp add: example_fs_def)

lemma example_builders:
  "basename ''expectations/B1'' = ''B1''" "basename ''expectations/B2-Trybot'' = ''B2-Trybot''"
  "\<not> ignore_builder ''B1''" "ignore_builder ''B2-Trybot''"
  "full_path (''expectations/B1'', ''expected-results.json'') = ''expectations/B1/expected-results.json''"
  "full_path (''expectations/B2-Trybot'', ''expected-results.json'') =
     ''expectations/B2-Trybot/expected-results.json''"
  by code_simp+

lemma example_new_expectations_1:
  "new_expectations example_consts example_modification_1 =
     Inr (''testA_8888.png'',
          JObj [(''allowed-digests'', JList [JList [JStr ''md5'', JInt 222]]),
                (''bugs'', JList [JInt 7])])"
  by (simp add: new_expectations_def and_then_def example_modification_1_def example_consts_def
        EXPECTATION_FIELDS_PASSED_THRU_VERBATIM_def)

lemma example_new_expectations_2:
  "new_expectations example_consts example_modification_2 =
     Inr (''testA_8888.png'',
          JObj [(''allowed-digests'', JList [JList [JStr ''md5'', JInt 333]]),
                  (''reviewed-by-human'', JBool True)])"
  by (simp add: new_expectations_def and_then_def example_modification_2_def example_consts_def
        EXPECTATION_FIELDS_PASSED_THRU_VERBATIM_def)

lemma example_mod_builders:
  "mod_builder example_consts example_modification_1 = Inr (JStr ''B1'')"
  "mod_builder example_consts example_modification_2 = Inr (JStr ''B1'')"
  by (simp_all add: mod_builder_def and_then_def example_modification_1_def
        example_modification_2_def example_consts_def)

lemma example_expected_key: "JSONKEY_EXPECTEDRESULTS example_consts = ''expected-results''"
  by (simp add: example_consts_def)

lemma example_apply:
  "for_each (apply_modification example_consts) [example_modification_1, example_modification_2]
     [(''B1'', example_expected_doc)] =
   Inr [(''B1'', JObj [(''expected-results'', JObj
          [(''testA_8888.png'',
            JObj [(''allowed-digests'', JList [JList [JStr ''md5'', JInt 333]]),
                  (''reviewed-by-human'', JBool True)])])])]"
  by (simp add: apply_modification_def and_then_def example_new_expectations_1
        example_new_expectations_2 example_mod_builders example_expected_key
        example_expected_doc_def)

lemma example_edit:
  "fst (edit_expectations example_consts example_fs ''expectations''
          [example_modification_1, example_modification_2]) = Inr ()"
proof -
  have "edit_expectations example_consts example_fs ''expectations''
          [example_modification_1, example_modification_2] =
        write_dicts_to_root
          [(''B1'', JObj [(''expected-results'', JObj
             [(''testA_8888.png'',
               JObj [(''allowed-digests'', JList [JList [JStr ''md5'', JInt 333]]),
                  (''reviewed-by-human'', JBool True)])])])]
          example_fs ''expectations''"
    by (simp only: edit_expectations_def example_expected_tree example_apply sum.case)
  then show ?thesis
    by (simp add: write_dicts_to_root_def example_isdir example_matching_files write_step_eq
          written_by_def example_builders)
qed

theorem later_modification_persisted_witness:
  "fst (edit_expectations example_consts example_fs ''expectations''
          [example_modification_1, example_modification_2]) = Inr () \<and>
   expectations_per_test example_consts [(''B1'', example_expected_doc)] ''B1''
     ''testA_8888.png'' =
     Inr (JObj [(''allowed-digests'', JList [JList [JStr ''md5'', JInt 111]]),
                (''bugs'', JList [JInt 1234]), (''reviewed-by-human'', JBool True)]) \<and>
   new_expectations example_consts example_modification_2 =
     Inr (''testA_8888.png'',
          JObj [(''allowed-digests'', JList [JList [JStr ''md5'', JInt 333]]),
                (''reviewed-by-human'', JBool True)]) \<and>
   (\<exists>kvs. LoadFromFile
            (snd (edit_expectations example_consts example_fs ''expectations''
                    [example_modification_1, example_modification_2]))
            ''expectations/B1/expected-results.json'' = Inr (JObj kvs) \<and>
          expectations_per_test example_consts [(''B1'', JObj kvs)] ''B1'' ''testA_8888.png'' =
            Inr (JObj [(''allowed-digests'', JList [JList [JStr ''md5'', JInt 333]]),
                       (''reviewed-by-human'', JBool True)])) \<and>
   digest_reference example_consts example_modification_2 = Inr (JStr ''md5'', JInt 333) \<and>
   entry_as_specified example_consts (JStr ''md5'', JInt 333)
     [(''bugs'', JNull), (''reviewed-by-human'', JBool True)] ''allowed-digests'' =
     Some (JList [JList [JStr ''md5'', JInt 333]]) \<and>
   entry_as_specified example_consts (JStr ''md5'', JInt 333)
     [(''bugs'', JNull), (''reviewed-by-human'', JBool True)] ''reviewed-by-human'' =
     Some (JBool True) \<and>
   entry_as_specified example_consts (JStr ''md5'', JInt 333)
     [(''bugs'', JNull), (''reviewed-by-human'', JBool True)] ''bugs'' = None"
proof -
  have split: "[example_modification_1, example_modification_2] =
                 [example_modification_1] @ example_modification_2 # []"
    by simp
  have last: "\<forall>m' \<in> set []. modification_target example_consts m' \<noteq>
                Some (JStr ''B1'', ''testA_8888.png'')"
    by simp
  have paths: "distinct (map full_path (matching_files example_fs ''expectations''))"
    by (simp add: example_matching_files example_builders)
  have prior: "expectations_per_test example_consts [(''B1'', example_expected_doc)] ''B1''
     ''testA_8888.png'' =
     Inr (JObj [(''allowed-digests'', JList [JList [JStr ''md5'', JInt 111]]),
                (''bugs'', JList [JInt 1234]), (''reviewed-by-human'', JBool True)])"
    by (simp add: expectations_per_test_def and_then_def example_expected_key
          example_expected_doc_def)
  have reference:
    "digest_reference example_consts example_modification_2 = Inr (JStr ''md5'', JInt 333)"
    by (simp add: digest_reference_def and_then_def example_modification_2_def
          example_consts_def)
  have specified:
    "entry_as_specified example_consts (JStr ''md5'', JInt 333)
       [(''bugs'', JNull), (''reviewed-by-human'', JBool True)] ''allowed-digests'' =
       Some (JList [JList [JStr ''md5'', JInt 333]])"
    "entry_as_specified example_consts (JStr ''md5'', JInt 333)
       [(''bugs'', JNull), (''reviewed-by-human'', JBool True)] ''reviewed-by-human'' =
       Some (JBool True)"
    "entry_as_specified example_consts (JStr ''md5'', JInt 333)
       [(''bugs'', JNull), (''reviewed-by-human'', JBool True)] ''bugs'' = None"
    by (simp_all add: entry_as_specified_def EXPECTATION_FIELDS_PASSED_THRU_VERBATIM_def
          example_consts_def)
  from later_modification_persisted [OF example_edit split example_mod_builders(2)
         example_new_expectations_2 last paths]
  have "\<exists>kvs. LoadFromFile
            (snd (edit_expectations example_consts example_fs ''expectations''
                    [example_modification_1, example_modification_2]))
            ''expectations/B1/expected-results.json'' = Inr (JObj kvs) \<and>
          expectations_per_test example_consts [(''B1'', JObj kvs)] ''B1'' ''testA_8888.png'' =
            Inr (JObj [(''allowed-digests'', JList [JList [JStr ''md5'', JInt 333]]),
                       (''reviewed-by-human'', JBool True)])"
    by (simp add: example_matching_files example_builders)
  with example_edit prior example_new_expectations_2 reference specified
  show ?thesis by blast
qed

end
